theory Spec2Isabelle
  imports Complex_Main
begin

section \<open>The hero-background generator (generate\_background\_v2.py)\<close>

text \<open>
  The script is one straight-line sequence of plotting calls. Python floats are read as
  \<^typ>\<open>real\<close> (ideal arithmetic), numpy arrays as lists (a two-dimensional array is the
  list of its rows), and the calls on the axes as records of their arguments appended,
  in order, to the list of artists of the figure. Single-letter array names of the script
  (\<open>x\<close>, \<open>X\<close>, \<open>R\<close>, \<open>t\<close>, \<open>U\<close>, ...) carry the suffix \<open>_arr\<close> here, so that they do not
  capture the variables of the theorems.
\<close>

subsection \<open>numpy: element-wise arithmetic, linspace, meshgrid, mgrid\<close>

type_synonym arr1 = "real list"
type_synonym arr2 = "real list list"

definition ew :: "(real \<Rightarrow> real) \<Rightarrow> arr2 \<Rightarrow> arr2" where
  "ew f A = map (map f) A"

definition ew2 :: "(real \<Rightarrow> real \<Rightarrow> real) \<Rightarrow> arr2 \<Rightarrow> arr2 \<Rightarrow> arr2" where
  "ew2 f A B = map2 (map2 f) A B"

text \<open>\<open>np.linspace(start, stop, num)\<close>: \<open>num\<close> samples, \<open>start + i * step\<close> with
  \<open>step = (stop - start) / (num - 1)\<close>.\<close>

definition linspace :: "real \<Rightarrow> real \<Rightarrow> nat \<Rightarrow> arr1" where
  "linspace start stop num =
     map (\<lambda>i. start + real i * ((stop - start) / real (num - 1))) [0..<num]"

text \<open>\<open>np.meshgrid(x, y)\<close>: both results have one row per element of \<open>y\<close>; the first
  repeats \<open>x\<close> in every row, the second holds \<open>y[i]\<close> all along row \<open>i\<close>.\<close>

definition meshgrid :: "arr1 \<Rightarrow> arr1 \<Rightarrow> arr2 \<times> arr2" where
  "meshgrid xs ys = (map (\<lambda>_. xs) ys, map (\<lambda>yv. map (\<lambda>_. yv) xs) ys)"

text \<open>\<open>np.mgrid[a:b:nj, c:d:mj]\<close> (imaginary steps: sample counts, end points
  included): the first result varies along the rows, the second along the columns.\<close>

definition mgrid :: "real \<Rightarrow> real \<Rightarrow> nat \<Rightarrow> real \<Rightarrow> real \<Rightarrow> nat \<Rightarrow> arr2 \<times> arr2" where
  "mgrid a b n c d m =
     (map (\<lambda>i. map (\<lambda>_. a + real i * ((b - a) / real (n - 1))) [0..<m]) [0..<n],
      map (\<lambda>_. map (\<lambda>j. c + real j * ((d - c) / real (m - 1))) [0..<m]) [0..<n])"

subsection \<open>Artists: what each drawing call puts on the axes\<close>

datatype circle =
  Circle (center: "real \<times> real") (radius: real) (fill: bool) (edgecolor: string)
    (linewidth: real) (alpha: real)

datatype draw_op =
    Imshow "(real \<times> real \<times> real) list list" "real list" string real
      \<comment> \<open>\<open>ax.imshow(img, extent=, aspect=, alpha=)\<close>\<close>
  | Plot "real list" "real list" string real real "string option"
      \<comment> \<open>\<open>ax.plot(xs, ys, color, linewidth=, alpha=, solid_capstyle=)\<close>\<close>
  | PlotMarker real real string string real real
      \<comment> \<open>\<open>ax.plot(x, y, marker, color=, markersize=, alpha=)\<close>\<close>
  | Triplot "real list" "real list" string real real string
      \<comment> \<open>\<open>ax.triplot(Triangulation(xs, ys), color=, linewidth=, alpha=, linestyle=)\<close>\<close>
  | Quiver arr2 arr2 arr2 arr2 string real real real real real
      \<comment> \<open>\<open>ax.quiver(X, Y, U, V, color=, alpha=, width=, scale=, headwidth=, headlength=)\<close>\<close>
  | Text real real string real string real string string "string \<times> string \<times> string"
      \<comment> \<open>\<open>ax.text(x, y, s, fontsize=, color=, alpha=, family=, weight=, bbox=)\<close>\<close>
  | AddPatch circle
      \<comment> \<open>\<open>ax.add_patch(Circle(...))\<close>\<close>

text \<open>The \<open>alpha=\<close> argument of a drawing call.\<close>

fun op_alpha :: "draw_op \<Rightarrow> real" where
  "op_alpha (Imshow _ _ _ a) = a"
| "op_alpha (Plot _ _ _ _ a _) = a"
| "op_alpha (PlotMarker _ _ _ _ _ a) = a"
| "op_alpha (Triplot _ _ _ _ a _) = a"
| "op_alpha (Quiver _ _ _ _ _ a _ _ _ _) = a"
| "op_alpha (Text _ _ _ _ _ a _ _ _) = a"
| "op_alpha (AddPatch c) = alpha c"

subsection \<open>Gradient background (lines 19--39)\<close>

definition x_arr :: arr1 where "x_arr = linspace 0 1 200"
definition y_arr :: arr1 where "y_arr = linspace 0 1 200"
definition X_arr :: arr2 where "X_arr = fst (meshgrid x_arr y_arr)"
definition Y_arr :: arr2 where "Y_arr = snd (meshgrid x_arr y_arr)"

definition color_dark :: "real list" where "color_dark = map (\<lambda>c. c / 255) [25, 55, 180]"
definition color_mid :: "real list" where "color_mid = map (\<lambda>c. c / 255) [37, 99, 235]"
definition color_light :: "real list" where "color_light = map (\<lambda>c. c / 255) [14, 165, 233]"

definition R_arr :: arr2 where
  "R_arr = ew2 (*) (ew2 (+) (ew (\<lambda>v. color_dark ! 0 * (1 - v)) Y_arr)
                           (ew (\<lambda>v. color_light ! 0 * v) Y_arr))
                  (ew (\<lambda>v. 1 - 0.2 * v) X_arr)"
definition G_arr :: arr2 where
  "G_arr = ew2 (*) (ew2 (+) (ew (\<lambda>v. color_dark ! 1 * (1 - v)) Y_arr)
                           (ew (\<lambda>v. color_light ! 1 * v) Y_arr))
                  (ew (\<lambda>v. 1 - 0.15 * v) X_arr)"
definition B_arr :: arr2 where
  "B_arr = ew2 (*) (ew2 (+) (ew (\<lambda>v. color_dark ! 2 * (1 - v)) Y_arr)
                           (ew (\<lambda>v. color_light ! 2 * v) Y_arr))
                  (ew (\<lambda>v. 1 - 0.1 * v) X_arr)"

definition center_x :: real where "center_x = 0.3"
definition center_y :: real where "center_y = 0.6"

definition radial :: arr2 where
  "radial = ew sqrt (ew2 (+) (ew (\<lambda>v. (v - center_x)\<^sup>2) X_arr)
                            (ew (\<lambda>v. (v - center_y)\<^sup>2) Y_arr))"
definition radial_factor :: arr2 where
  "radial_factor = ew (\<lambda>v. 1 - 0.15 * exp (- v * 3)) radial"

text \<open>\<open>np.dstack\<close> of three equally shaped planes: one colour triple per pixel.\<close>

definition dstack :: "arr2 \<Rightarrow> arr2 \<Rightarrow> arr2 \<Rightarrow> (real \<times> real \<times> real) list list" where
  "dstack A B C = map2 (\<lambda>ra (rb, rc). zip ra (zip rb rc)) A (zip B C)"

definition background :: "(real \<times> real \<times> real) list list" where
  "background = dstack (ew2 (*) R_arr radial_factor) (ew2 (*) G_arr radial_factor)
                       (ew2 (*) B_arr radial_factor)"

definition imshow_op :: draw_op where
  "imshow_op = Imshow background [0, 10, 0, 10] ''auto'' 1.0"

subsection \<open>Sine waves (lines 42--53)\<close>

definition t_arr :: arr1 where "t_arr = linspace 0 10 2000"

text \<open>Each configuration is \<open>(freq, phase, alpha_val, lw, offset)\<close>.\<close>

definition wave_configs :: "(real \<times> real \<times> real \<times> real \<times> real) list" where
  "wave_configs =
     [(1.8, 0, 0.20, 2.5, 5.0),
      (2.4, pi / 3, 0.18, 2.0, 4.5),
      (3.2, pi / 2, 0.15, 1.8, 5.5),
      (2.0, pi, 0.12, 2.2, 6.0),
      (3.8, 3 * pi / 4, 0.10, 1.5, 4.0)]"

definition wave_y :: "real \<Rightarrow> real \<Rightarrow> real \<Rightarrow> real \<Rightarrow> real" where
  "wave_y freq phase offset tv = offset + 1.2 * sin (freq * tv + phase) + 0.3 * sin (freq * 2 * tv)"

definition y_wave :: "real \<Rightarrow> real \<Rightarrow> real \<Rightarrow> arr1" where
  "y_wave freq phase offset = map (wave_y freq phase offset) t_arr"

fun wave_op :: "real \<times> real \<times> real \<times> real \<times> real \<Rightarrow> draw_op" where
  "wave_op (freq, phase, alpha_val, lw, offset) =
     Plot t_arr (y_wave freq phase offset) ''white'' lw alpha_val (Some ''round'')"

subsection \<open>Flow field (lines 72--90)\<close>

definition Y_grid :: arr2 where "Y_grid = fst (mgrid 0.8 9.2 12 0.8 9.2 12)"
definition X_grid :: arr2 where "X_grid = snd (mgrid 0.8 9.2 12 0.8 9.2 12)"

definition center_flow :: "real list" where "center_flow = [5.0, 5.0]"

definition dx_arr :: arr2 where "dx_arr = ew (\<lambda>v. v - center_flow ! 0) X_grid"
definition dy_arr :: arr2 where "dy_arr = ew (\<lambda>v. v - center_flow ! 1) Y_grid"
definition r_arr :: arr2 where
  "r_arr = ew (\<lambda>v. v + 0.1) (ew sqrt (ew2 (+) (ew (\<lambda>v. v\<^sup>2) dx_arr) (ew (\<lambda>v. v\<^sup>2) dy_arr)))"

text \<open>The spiral part, then the in-place additions \<open>U += -0.15 * dx\<close>, \<open>V += -0.15 * dy\<close>.\<close>

definition U_spiral :: arr2 where
  "U_spiral = ew2 (*) (ew2 (/) (ew uminus dy_arr) r_arr) (ew (\<lambda>v. exp (- v / 4)) r_arr)"
definition V_spiral :: arr2 where
  "V_spiral = ew2 (*) (ew2 (/) dx_arr r_arr) (ew (\<lambda>v. exp (- v / 4)) r_arr)"

definition U_arr :: arr2 where "U_arr = ew2 (+) U_spiral (ew (\<lambda>v. - 0.15 * v) dx_arr)"
definition V_arr :: arr2 where "V_arr = ew2 (+) V_spiral (ew (\<lambda>v. - 0.15 * v) dy_arr)"

definition quiver_op :: draw_op where
  "quiver_op = Quiver X_grid Y_grid U_arr V_arr ''white'' 0.15 0.004 12 3.5 4.5"

subsection \<open>Labels, circles, grid, corners (lines 93--138)\<close>

text \<open>The labels are raw LaTeX strings; \<open>bsl\<close> is their backslash character.\<close>

definition bsl :: string where "bsl = [CHR 0x5C]"

definition equations :: "(string \<times> (real \<times> real) \<times> real) list" where
  "equations =
     [(''$'' @ bsl @ ''nabla '' @ bsl @ ''cdot '' @ bsl @ ''mathbf{u} = 0$'', (1.2, 8.8), 16),
      (''$'' @ bsl @ ''nabla^2 p = -'' @ bsl @ ''omega^2 c^{-2} p$'', (8.2, 1.5), 14),
      (''$'' @ bsl @ ''min_{'' @ bsl @ ''mathbf{m}} '' @ bsl @ '', J('' @ bsl @ ''mathbf{m})$'',
         (8.5, 8.5), 16),
      (''$'' @ bsl @ ''mathbf{g} = '' @ bsl @ ''nabla_{'' @ bsl @ ''mathbf{m}} J$'', (1.5, 1.8), 14)]"

fun text_op :: "string \<times> (real \<times> real) \<times> real \<Rightarrow> draw_op" where
  "text_op (eq, (x_pos, y_pos), fsize) =
     Text x_pos y_pos eq fsize ''white'' 0.18 ''serif'' ''normal''
       (''round,pad=0.4'', ''none'', ''none'')"

text \<open>Each entry is \<open>(cx, cy, radius, alpha_val, lw)\<close>.\<close>

definition circles :: "(real \<times> real \<times> real \<times> real \<times> real) list" where
  "circles =
     [(2.2, 7.2, 0.8, 0.10, 2.5),
      (7.8, 3.0, 0.7, 0.12, 2.2),
      (5.0, 5.2, 1.0, 0.08, 2.8)]"

fun circle_ops :: "real \<times> real \<times> real \<times> real \<times> real \<Rightarrow> draw_op list" where
  "circle_ops (cx, cy, rad, alpha_val, lw) =
     [AddPatch (Circle (cx, cy) rad False ''white'' lw alpha_val),
      AddPatch (Circle (cx, cy) (rad * 0.6) False ''white'' (lw * 0.6) (alpha_val * 0.5))]"

definition grid_ops :: "real \<Rightarrow> draw_op list" where
  "grid_ops i =
     [Plot [i, i] [0, 10] ''white'' 0.3 0.04 None,
      Plot [0, 10] [i, i] ''white'' 0.3 0.04 None]"

definition corner_elements :: "(real \<times> real \<times> real \<times> real) list" where
  "corner_elements = [(0.3, 0.3, 0.5, 0.5), (9.7, 9.7, - 0.5, - 0.5)]"

fun corner_ops :: "real \<times> real \<times> real \<times> real \<Rightarrow> draw_op list" where
  "corner_ops (cx, cy, dx, dy) =
     [Plot [cx, cx + dx] [cy, cy] ''white'' 3 0.2 (Some ''round''),
      Plot [cx, cx] [cy, cy + dy] ''white'' 3 0.2 (Some ''round'')]"

subsection \<open>numpy's global random generator\<close>

text \<open>
  The generator is library code; the script only calls \<open>np.random.seed\<close> and
  \<open>np.random.uniform\<close>. It is a parameter here: \<open>np_seed n\<close> is the generator state that
  seeding with \<open>n\<close> installs (whatever the state was before), and \<open>np_uniform g low high n\<close>
  returns the \<open>n\<close> samples drawn in state \<open>g\<close> together with the state after the draw.
\<close>

record 'g np_random =
  np_seed :: "nat \<Rightarrow> 'g"
  np_uniform :: "'g \<Rightarrow> real \<Rightarrow> real \<Rightarrow> nat \<Rightarrow> real list \<times> 'g"

text \<open>The documented contract of \<open>uniform(low, high, size)\<close>: \<open>size\<close> samples, each
  between \<open>low\<close> and \<open>high\<close>.\<close>

definition uniform_contract :: "'g np_random \<Rightarrow> bool" where
  "uniform_contract np =
     (\<forall>g low high n. low \<le> high \<longrightarrow>
        length (fst (np_uniform np g low high n)) = n \<and>
        list_all (\<lambda>v. low \<le> v \<and> v \<le> high) (fst (np_uniform np g low high n)))"

subsection \<open>Program state\<close>

record figure =
  figsize :: "real \<times> real"
  fig_dpi :: real
  artists :: "draw_op list"
  xlim :: "(real \<times> real) option"
  ylim :: "(real \<times> real) option"
  axis_on :: bool
  aspect :: string
  layout_pad :: "real option"

definition new_figure :: "real \<times> real \<Rightarrow> real \<Rightarrow> figure" where
  "new_figure sz d =
     \<lparr>figsize = sz, fig_dpi = d, artists = [], xlim = None, ylim = None, axis_on = True,
      aspect = ''auto'', layout_pad = None\<rparr>"

datatype img_format = PNG | JPEG

record savefig_args =
  sf_dpi :: real
  sf_bbox_inches :: string
  sf_pad_inches :: real
  sf_facecolor :: string
  sf_edgecolor :: string
  sf_transparent :: bool

text \<open>A written file is kept as what was asked of the encoder: the format, the arguments
  of \<open>savefig\<close> and the figure as it stood at the call.\<close>

record image_file =
  img_format :: img_format
  img_args :: savefig_args
  img_figure :: figure

text \<open>The module-level variables that later statements read, the current figure, the
  working directory, the names written (in order), standard output, and whether
  \<open>plt.close()\<close> has run.\<close>

record 'g state =
  rng :: 'g
  mesh_x :: "real list"
  mesh_y :: "real list"
  px :: "real list"
  py :: "real list"
  sizes :: "real list"
  alphas :: "real list"
  fig :: figure
  files :: "string \<rightharpoonup> image_file"
  written :: "string list"
  stdout :: "string list"
  fig_closed :: bool

text \<open>A fresh process: generator state \<open>g\<close> (not chosen by the script), working directory
  \<open>fs\<close>, nothing drawn, written or printed. The figure is a placeholder until
  \<open>plt.figure\<close> runs.\<close>

definition init :: "'g \<Rightarrow> (string \<rightharpoonup> image_file) \<Rightarrow> 'g state" where
  "init g fs =
     \<lparr>rng = g, mesh_x = [], mesh_y = [], px = [], py = [], sizes = [], alphas = [],
      fig = new_figure (0, 0) 0, files = fs, written = [], stdout = [], fig_closed = False\<rparr>"

subsection \<open>Statements\<close>

text \<open>
  A statement either updates the state or raises. \<open>IndexError\<close> and \<open>ValueError\<close> are
  the errors the model decides itself (an index out of range, a file name whose
  extension is not a supported format); \<open>LibraryError\<close> stands for any exception raised inside
  a numpy or matplotlib call for reasons outside the script (an unwritable directory, a
  missing backend), see \<open>run\<close> below.
\<close>

datatype py_error = IndexError | ValueError | LibraryError

type_synonym 'g stmt = "'g state \<Rightarrow> py_error + 'g state"

definition draw :: "draw_op \<Rightarrow> 'g stmt" where
  "draw a s = Inr (s\<lparr>fig := (fig s)\<lparr>artists := artists (fig s) @ [a]\<rparr>\<rparr>)"

definition figure_stmt :: "real \<times> real \<Rightarrow> real \<Rightarrow> 'g stmt" where
  "figure_stmt sz d s = Inr (s\<lparr>fig := new_figure sz d\<rparr>)"

definition gca_stmt :: "'g stmt" where
  "gca_stmt s = Inr s"

definition seed_stmt :: "'g np_random \<Rightarrow> nat \<Rightarrow> 'g stmt" where
  "seed_stmt np n s = Inr (s\<lparr>rng := np_seed np n\<rparr>)"

text \<open>\<open>var = np.random.uniform(low, high, n)\<close>; \<open>put\<close> stores into the variable.\<close>

definition uniform_stmt ::
  "'g np_random \<Rightarrow> (real list \<Rightarrow> 'g state \<Rightarrow> 'g state) \<Rightarrow> real \<Rightarrow> real \<Rightarrow> nat \<Rightarrow> 'g stmt" where
  "uniform_stmt np put low high n s =
     (case np_uniform np (rng s) low high n of (v, g) \<Rightarrow> Inr (put v (s\<lparr>rng := g\<rparr>)))"

definition mesh_regions :: "(real list \<times> nat) list" where
  "mesh_regions =
     [([0.5, 2.5, 0.5, 2.5], 15),
      ([7, 9.5, 7, 9.5], 12),
      ([3, 6, 2, 5], 18)]"

definition triplot_op :: "real list \<times> real list \<Rightarrow> draw_op" where
  "triplot_op m = Triplot (fst m) (snd m) ''white'' 0.6 0.12 ''-''"

fun mesh_stmts :: "'g np_random \<Rightarrow> real list \<times> nat \<Rightarrow> 'g stmt list" where
  "mesh_stmts np (bounds, n_pts) =
     [uniform_stmt np (\<lambda>v s. s\<lparr>mesh_x := v\<rparr>) (bounds ! 0) (bounds ! 1) n_pts,
      uniform_stmt np (\<lambda>v s. s\<lparr>mesh_y := v\<rparr>) (bounds ! 2) (bounds ! 3) n_pts,
      (\<lambda>s. draw (triplot_op (mesh_x s, mesh_y s)) s)]"

definition n_particles :: nat where "n_particles = 80"

definition particle_op :: "real list \<Rightarrow> real list \<Rightarrow> real list \<Rightarrow> real list \<Rightarrow> nat \<Rightarrow> draw_op" where
  "particle_op xs ys ss as i = PlotMarker (xs ! i) (ys ! i) ''o'' ''white'' (ss ! i) (as ! i)"

text \<open>The loop body \<open>ax.plot(px[i], py[i], 'o', ..., markersize=sizes[i], alpha=alphas[i])\<close>:
  an index past the end of an array raises.\<close>

definition particle_stmt :: "nat \<Rightarrow> 'g stmt" where
  "particle_stmt i s =
     (if i < length (px s) \<and> i < length (py s) \<and> i < length (sizes s) \<and> i < length (alphas s)
      then draw (particle_op (px s) (py s) (sizes s) (alphas s) i) s
      else Inl IndexError)"

definition set_xlim :: "real \<Rightarrow> real \<Rightarrow> 'g stmt" where
  "set_xlim a b s = Inr (s\<lparr>fig := (fig s)\<lparr>xlim := Some (a, b)\<rparr>\<rparr>)"

definition set_ylim :: "real \<Rightarrow> real \<Rightarrow> 'g stmt" where
  "set_ylim a b s = Inr (s\<lparr>fig := (fig s)\<lparr>ylim := Some (a, b)\<rparr>\<rparr>)"

definition axis_off :: "'g stmt" where
  "axis_off s = Inr (s\<lparr>fig := (fig s)\<lparr>axis_on := False\<rparr>\<rparr>)"

definition set_aspect :: "string \<Rightarrow> 'g stmt" where
  "set_aspect a s = Inr (s\<lparr>fig := (fig s)\<lparr>aspect := a\<rparr>\<rparr>)"

definition tight_layout :: "real \<Rightarrow> 'g stmt" where
  "tight_layout p s = Inr (s\<lparr>fig := (fig s)\<lparr>layout_pad := Some p\<rparr>\<rparr>)"

text \<open>\<open>savefig\<close> takes the format from the extension of the file name. Only the two
  formats the script asks for are modelled; any other extension counts as unsupported.\<close>

definition extension :: "string \<Rightarrow> string" where
  "extension fname = rev (takeWhile (\<lambda>c. c \<noteq> CHR ''.'') (rev fname))"

definition format_of :: "string \<Rightarrow> img_format option" where
  "format_of fname =
     (if extension fname = ''png'' then Some PNG
      else if extension fname = ''jpg'' \<or> extension fname = ''jpeg'' then Some JPEG
      else None)"

definition savefig :: "string \<Rightarrow> savefig_args \<Rightarrow> 'g stmt" where
  "savefig fname args s =
     (case format_of fname of
        None \<Rightarrow> Inl ValueError
      | Some f \<Rightarrow>
          Inr (s\<lparr>files := (files s)(fname \<mapsto> \<lparr>img_format = f, img_args = args, img_figure = fig s\<rparr>),
                 written := written s @ [fname]\<rparr>))"

definition close_stmt :: "'g stmt" where
  "close_stmt s = Inr (s\<lparr>fig_closed := True\<rparr>)"

definition print :: "string \<Rightarrow> 'g stmt" where
  "print line s = Inr (s\<lparr>stdout := stdout s @ [line]\<rparr>)"

text \<open>Modelled from the spec: the encoders behind \<open>savefig\<close> are library code; the spec
  states that the PNG output has an alpha channel and the JPEG output does not.\<close>

fun alpha_channel :: "img_format \<Rightarrow> bool" where
  "alpha_channel PNG = True"
| "alpha_channel JPEG = False"

subsection \<open>The script\<close>

definition png_args :: savefig_args where
  "png_args =
     \<lparr>sf_dpi = 200, sf_bbox_inches = ''tight'', sf_pad_inches = 0, sf_facecolor = ''none'',
      sf_edgecolor = ''none'', sf_transparent = True\<rparr>"

text \<open>The second call leaves \<open>transparent\<close> at its default.\<close>

definition jpg_args :: savefig_args where
  "jpg_args =
     \<lparr>sf_dpi = 200, sf_bbox_inches = ''tight'', sf_pad_inches = 0, sf_facecolor = ''#1937b4'',
      sf_edgecolor = ''none'', sf_transparent = False\<rparr>"

text \<open>The check mark that starts the first printed line, as its UTF-8 bytes.\<close>

definition check_mark :: string where
  "check_mark = [CHR 0xE2, CHR 0x9C, CHR 0x93]"

definition script :: "'g np_random \<Rightarrow> 'g stmt list" where
  "script np =
     [figure_stmt (19.2, 10.8) 200, gca_stmt, draw imshow_op]
     @ map (\<lambda>c. draw (wave_op c)) wave_configs
     @ [seed_stmt np 42]
     @ concat (map (mesh_stmts np) mesh_regions)
     @ [draw quiver_op]
     @ map (\<lambda>e. draw (text_op e)) equations
     @ concat (map (\<lambda>c. map draw (circle_ops c)) circles)
     @ concat (map (\<lambda>i. map draw (grid_ops i)) (linspace 0.5 9.5 15))
     @ concat (map (\<lambda>c. map draw (corner_ops c)) corner_elements)
     @ [seed_stmt np 123,
        uniform_stmt np (\<lambda>v s. s\<lparr>px := v\<rparr>) 0 10 n_particles,
        uniform_stmt np (\<lambda>v s. s\<lparr>py := v\<rparr>) 0 10 n_particles,
        uniform_stmt np (\<lambda>v s. s\<lparr>sizes := v\<rparr>) 1 4 n_particles,
        uniform_stmt np (\<lambda>v s. s\<lparr>alphas := v\<rparr>) 0.05 0.15 n_particles]
     @ map particle_stmt [0..<n_particles]
     @ [set_xlim 0 10, set_ylim 0 10, axis_off, set_aspect ''equal'',
        tight_layout 0,
        savefig ''hero-background.png'' png_args,
        savefig ''hero-background.jpg'' jpg_args,
        close_stmt,
        print (check_mark @ '' High-quality background images generated successfully!''),
        print (''  - hero-background.png (transparent, 200 DPI)''),
        print (''  - hero-background.jpg (solid background, 200 DPI)'')]"

subsection \<open>Running the script\<close>

text \<open>
  The script has no \<open>try\<close>: the first exception ends the process. \<open>raises k\<close> says
  whether the library call of statement number \<open>k\<close> (in execution order) fails for an
  outside reason. A run either finishes, or is aborted at a statement, with the error and
  the state reached before that statement.
\<close>

datatype 'g outcome = Finished "'g state" | Aborted nat py_error "'g state"

fun run :: "(nat \<Rightarrow> bool) \<Rightarrow> nat \<Rightarrow> 'g stmt list \<Rightarrow> 'g state \<Rightarrow> 'g outcome" where
  "run raises k [] s = Finished s"
| "run raises k (c # cs) s =
     (if raises k then Aborted k LibraryError s
      else case c s of
             Inl e \<Rightarrow> Aborted k e s
           | Inr s' \<Rightarrow> run raises (Suc k) cs s')"

text \<open>The exit status of the interpreter: 0 at the end of the script, 1 after an
  uncaught exception.\<close>

fun exit_code :: "'g outcome \<Rightarrow> nat" where
  "exit_code (Finished _) = 0"
| "exit_code (Aborted _ _ _) = 1"

fun last_state :: "'g outcome \<Rightarrow> 'g state" where
  "last_state (Finished s) = s"
| "last_state (Aborted _ _ s) = s"

definition main :: "'g np_random \<Rightarrow> (nat \<Rightarrow> bool) \<Rightarrow> 'g \<Rightarrow> (string \<rightharpoonup> image_file) \<Rightarrow> 'g outcome" where
  "main np raises g fs = run raises 0 (script np) (init g fs)"

text \<open>What the iterations over the mesh regions and the particle arrays draw from the
  generator, as functions of the generator state at the start.\<close>

fun mesh_points :: "'g np_random \<Rightarrow> 'g \<Rightarrow> (real list \<times> nat) list \<Rightarrow> (real list \<times> real list) list" where
  "mesh_points np g [] = []"
| "mesh_points np g ((bounds, n_pts) # rs) =
     (let (mx, g1) = np_uniform np g (bounds ! 0) (bounds ! 1) n_pts;
          (my, g2) = np_uniform np g1 (bounds ! 2) (bounds ! 3) n_pts
      in (mx, my) # mesh_points np g2 rs)"

definition particle_arrays ::
  "'g np_random \<Rightarrow> 'g \<Rightarrow> real list \<times> real list \<times> real list \<times> real list" where
  "particle_arrays np g =
     (let (xs, g1) = np_uniform np g 0 10 n_particles;
          (ys, g2) = np_uniform np g1 0 10 n_particles;
          (ss, g3) = np_uniform np g2 1 4 n_particles;
          (as, g4) = np_uniform np g3 0.05 0.15 n_particles
      in (xs, ys, ss, as))"

text \<open>The artists of a complete run, layer by layer.\<close>

definition wave_layer :: "draw_op list" where
  "wave_layer = map wave_op wave_configs"

definition mesh_layer :: "'g np_random \<Rightarrow> draw_op list" where
  "mesh_layer np = map triplot_op (mesh_points np (np_seed np 42) mesh_regions)"

definition label_layer :: "draw_op list" where
  "label_layer = map text_op equations"

definition circle_layer :: "draw_op list" where
  "circle_layer = concat (map circle_ops circles)"

definition grid_layer :: "draw_op list" where
  "grid_layer = concat (map grid_ops (linspace 0.5 9.5 15))"

definition corner_layer :: "draw_op list" where
  "corner_layer = concat (map corner_ops corner_elements)"

definition particle_layer :: "'g np_random \<Rightarrow> draw_op list" where
  "particle_layer np =
     (case particle_arrays np (np_seed np 123) of
        (xs, ys, ss, as) \<Rightarrow> map (particle_op xs ys ss as) [0..<n_particles])"

definition drawing :: "'g np_random \<Rightarrow> draw_op list" where
  "drawing np =
     [imshow_op] @ wave_layer @ mesh_layer np @ [quiver_op] @ label_layer @ circle_layer
     @ grid_layer @ corner_layer @ particle_layer np"

text \<open>The figure as both \<open>savefig\<close> calls see it: every layer drawn, the axes set up by
  lines 153--159.\<close>

definition final_figure :: "'g np_random \<Rightarrow> figure" where
  "final_figure np =
     (new_figure (19.2, 10.8) 200)
       \<lparr>artists := drawing np, xlim := Some (0, 10), ylim := Some (0, 10), axis_on := False,
        aspect := ''equal'', layout_pad := Some 0\<rparr>"

subsection \<open>Observations on artists\<close>

text \<open>What a drawing call puts on the canvas.\<close>

datatype shape = Image | Line | Dot | Mesh | Arrows | Label | Ring

fun op_shape :: "draw_op \<Rightarrow> shape" where
  "op_shape (Imshow _ _ _ _) = Image"
| "op_shape (Plot _ _ _ _ _ _) = Line"
| "op_shape (PlotMarker _ _ _ _ _ _) = Dot"
| "op_shape (Triplot _ _ _ _ _ _) = Mesh"
| "op_shape (Quiver _ _ _ _ _ _ _ _ _ _) = Arrows"
| "op_shape (Text _ _ _ _ _ _ _ _ _) = Label"
| "op_shape (AddPatch _) = Ring"

text \<open>The randomly placed points of an artist: the vertices of a mesh, the position of a
  particle.\<close>

fun random_points :: "draw_op \<Rightarrow> (real \<times> real) list" where
  "random_points (Triplot xs ys _ _ _ _) = zip xs ys"
| "random_points (PlotMarker x y _ _ _ _) = [(x, y)]"
| "random_points _ = []"

definition in_canvas :: "real \<times> real \<Rightarrow> bool" where
  "in_canvas p = (0 \<le> fst p \<and> fst p \<le> 10 \<and> 0 \<le> snd p \<and> snd p \<le> 10)"

text \<open>The points of region \<open>(bounds, n_pts)\<close> are \<open>n_pts\<close> points of the rectangle
  \<open>[bounds[0], bounds[1]] \<times> [bounds[2], bounds[3]]\<close>.\<close>

fun in_region :: "real list \<times> real list \<Rightarrow> real list \<times> nat \<Rightarrow> bool" where
  "in_region (mx, my) (bounds, n_pts) =
     (length mx = n_pts \<and> length my = n_pts \<and>
      list_all (\<lambda>v. bounds ! 0 \<le> v \<and> v \<le> bounds ! 1) mx \<and>
      list_all (\<lambda>v. bounds ! 2 \<le> v \<and> v \<le> bounds ! 3) my)"

text \<open>A two-dimensional array has shape \<open>(n, m)\<close>: \<open>n\<close> rows of \<open>m\<close> entries.\<close>

definition is_shape :: "nat \<Rightarrow> nat \<Rightarrow> 'a list list \<Rightarrow> bool" where
  "is_shape n m A = (length A = n \<and> list_all (\<lambda>row. length row = m) A)"

subsection \<open>A concrete generator\<close>

text \<open>A small generator that meets the contract of \<open>uniform\<close>, to run the script on: the
  state is a counter, seeding sets it, and sample \<open>i\<close> of a draw sits at one of ten
  evenly spaced positions between \<open>low\<close> and \<open>high\<close>.\<close>

definition counter_np :: "nat np_random" where
  "counter_np =
     \<lparr>np_seed = (\<lambda>n. n),
      np_uniform = (\<lambda>g low high n.
        (map (\<lambda>i. low + (high - low) * (real ((g + 7 * i) mod 10) / 10)) [0..<n], g + n))\<rparr>"

section \<open>Running statement lists\<close>

text \<open>
  How \<open>run\<close> behaves on concatenated lists and on the blocks of the script, when no
  library call fails; then the whole script, split into the statements up to the second
  seeding and the four draws, the particle loop, and the axes set-up and output.
\<close>

lemma run_append:
  "run R k (a @ b) s =
     (case run R k a s of Finished t \<Rightarrow> run R (k + length a) b t | Aborted j e t \<Rightarrow> Aborted j e t)"
  by (induction a arbitrary: k s) (auto split: sum.splits outcome.splits)

lemma run_draws:
  "run (\<lambda>_. False) k (map draw ops) s =
     Finished (s\<lparr>fig := (fig s)\<lparr>artists := artists (fig s) @ ops\<rparr>\<rparr>)"
  by (induction ops arbitrary: k s) (simp_all add: draw_def)

lemma run_draw_map:
  "run (\<lambda>_. False) k (map (\<lambda>c. draw (f c)) cs) s =
     Finished (s\<lparr>fig := (fig s)\<lparr>artists := artists (fig s) @ map f cs\<rparr>\<rparr>)"
  using run_draws[of k "map f cs" s] by (simp add: comp_def)

lemma run_draw_concat:
  "run (\<lambda>_. False) k (concat (map (\<lambda>c. map draw (f c)) cs)) s =
     Finished (s\<lparr>fig := (fig s)\<lparr>artists := artists (fig s) @ concat (map f cs)\<rparr>\<rparr>)"
  using run_draws[of k "concat (map f cs)" s] by (simp add: map_concat comp_def)

lemma run_particles:
  "\<forall>i \<in> set is. i < length (px s) \<and> i < length (py s) \<and> i < length (sizes s) \<and> i < length (alphas s) \<Longrightarrow>
   run (\<lambda>_. False) k (map particle_stmt is) s =
     Finished (s\<lparr>fig := (fig s)\<lparr>artists := artists (fig s) @ map (particle_op (px s) (py s) (sizes s) (alphas s)) is\<rparr>\<rparr>)"
  by (induction "is" arbitrary: k s) (simp_all add: particle_stmt_def draw_def)

lemma run_particles_stuck:
  "\<not> (\<forall>i \<in> set is. i < length (px s) \<and> i < length (py s) \<and> i < length (sizes s) \<and> i < length (alphas s)) \<Longrightarrow>
   \<exists>k' u. run (\<lambda>_. False) k (map particle_stmt is) s = Aborted k' IndexError u"
proof (induction "is" arbitrary: k s)
  case Nil
  then show ?case by simp
next
  case (Cons i "is")
  show ?case
  proof (cases "i < length (px s) \<and> i < length (py s) \<and> i < length (sizes s) \<and> i < length (alphas s)")
    case True
    define s' where "s' = s\<lparr>fig := (fig s)\<lparr>artists := artists (fig s) @ [particle_op (px s) (py s) (sizes s) (alphas s) i]\<rparr>\<rparr>"
    have step: "particle_stmt i s = Inr s'"
      using True by (simp add: particle_stmt_def draw_def s'_def)
    have same: "px s' = px s" "py s' = py s" "sizes s' = sizes s" "alphas s' = alphas s"
      by (simp_all add: s'_def)
    from Cons.prems True
    have "\<not> (\<forall>i \<in> set is. i < length (px s') \<and> i < length (py s') \<and> i < length (sizes s') \<and> i < length (alphas s'))"
      unfolding same by simp
    from Cons.IH[OF this, of "Suc k"] show ?thesis by (simp add: step)
  next
    case False
    have "particle_stmt i s = Inl IndexError"
      unfolding particle_stmt_def by (rule if_not_P[OF False])
    then show ?thesis by simp
  qed
qed

lemma run_mesh:
  "\<exists>g' mx my. run (\<lambda>_. False) k (concat (map (mesh_stmts np) rs)) s =
     Finished (s\<lparr>rng := g', mesh_x := mx, mesh_y := my,
       fig := (fig s)\<lparr>artists := artists (fig s) @ map triplot_op (mesh_points np (rng s) rs)\<rparr>\<rparr>)"
proof (induction rs arbitrary: k s)
  case Nil
  have "s = s\<lparr>rng := rng s, mesh_x := mesh_x s, mesh_y := mesh_y s, fig := (fig s)\<lparr>artists := artists (fig s)\<rparr>\<rparr>"
    by simp
  then show ?case by (metis append_Nil2 concat.simps(1) list.simps(8) mesh_points.simps(1) run.simps(1))
next
  case (Cons r rs)
  obtain bounds n where r: "r = (bounds, n)" by (cases r)
  obtain mx g1 where u1: "np_uniform np (rng s) (bounds ! 0) (bounds ! 1) n = (mx, g1)" by fastforce
  obtain my g2 where u2: "np_uniform np g1 (bounds ! 2) (bounds ! 3) n = (my, g2)" by fastforce
  let ?s' = "s\<lparr>mesh_x := mx, rng := g2, mesh_y := my, fig := (fig s)\<lparr>artists := artists (fig s) @ [triplot_op (mx, my)]\<rparr>\<rparr>"
  from Cons.IH[of "k + 3" ?s'] obtain g' mx' my' where
    ih: "run (\<lambda>_. False) (k + 3) (concat (map (mesh_stmts np) rs)) ?s' =
          Finished (?s'\<lparr>rng := g', mesh_x := mx', mesh_y := my',
            fig := (fig ?s')\<lparr>artists := artists (fig ?s') @ map triplot_op (mesh_points np (rng ?s') rs)\<rparr>\<rparr>)"
    by blast
  show ?case
    apply (rule exI[of _ g'], rule exI[of _ mx'], rule exI[of _ my'])
    using ih u1 u2 by (simp add: r uniform_stmt_def draw_def numeral_3_eq_3)
qed

lemma artists_new_figure: "artists (new_figure sz d) = []"
  by (simp add: new_figure_def)

lemma run_index:
  "run (\<lambda>_. False) k cs s = Finished t \<Longrightarrow> run (\<lambda>_. False) k' cs s = Finished t"
  by (induction cs arbitrary: k k' s) (auto split: sum.splits)

lemma run_seq:
  assumes "run (\<lambda>_. False) k a s = Finished t" and "run (\<lambda>_. False) k' b t = Finished u"
  shows "run (\<lambda>_. False) k'' (a @ b) s = Finished u"
  using run_index[OF assms(1), of k''] run_index[OF assms(2), of "k'' + length a"]
  by (simp add: run_append)

lemma run_abort_seq:
  assumes "run (\<lambda>_. False) 0 a s = Finished t"
    and "run (\<lambda>_. False) (length a) b t = Aborted j e u"
  shows "run (\<lambda>_. False) 0 ((a @ b) @ c) s = Aborted j e u"
  using assms by (simp add: run_append)

lemma run_uniform4:
  assumes "particle_arrays np (rng s) = (xs, ys, ss, as)"
  shows "\<exists>g'. run (\<lambda>_. False) k
     [uniform_stmt np (\<lambda>v s. s\<lparr>px := v\<rparr>) 0 10 n_particles,
      uniform_stmt np (\<lambda>v s. s\<lparr>py := v\<rparr>) 0 10 n_particles,
      uniform_stmt np (\<lambda>v s. s\<lparr>sizes := v\<rparr>) 1 4 n_particles,
      uniform_stmt np (\<lambda>v s. s\<lparr>alphas := v\<rparr>) 0.05 0.15 n_particles] s =
      Finished (s\<lparr>px := xs, py := ys, sizes := ss, alphas := as, rng := g'\<rparr>)"
proof -
  obtain x1 g1 where u1: "np_uniform np (rng s) 0 10 n_particles = (x1, g1)" by fastforce
  obtain x2 g2 where u2: "np_uniform np g1 0 10 n_particles = (x2, g2)" by fastforce
  obtain x3 g3 where u3: "np_uniform np g2 1 4 n_particles = (x3, g3)" by fastforce
  obtain x4 g4 where u4: "np_uniform np g3 0.05 0.15 n_particles = (x4, g4)" by fastforce
  have eq: "xs = x1" "ys = x2" "ss = x3" "as = x4"
    using assms u1 u2 u3 u4 by (simp_all add: particle_arrays_def)
  show ?thesis
    using u1 u2 u3 u4 by (intro exI[of _ g4]) (simp add: uniform_stmt_def eq)
qed

lemma run_script:
  defines "N \<equiv> \<lambda>_::nat. False"
  shows "if (case particle_arrays np (np_seed np 123) of (xs, ys, ss, as) \<Rightarrow>
              n_particles \<le> length xs \<and> n_particles \<le> length ys \<and> n_particles \<le> length ss \<and> n_particles \<le> length as)
    then \<exists>t. run N 0 (script np) (init g fs) = Finished t
    \<and> fig t = final_figure np
    \<and> files t = fs(''hero-background.png'' \<mapsto> \<lparr>img_format = PNG, img_args = png_args, img_figure = final_figure np\<rparr>,
                   ''hero-background.jpg'' \<mapsto> \<lparr>img_format = JPEG, img_args = jpg_args, img_figure = final_figure np\<rparr>)
    \<and> written t = [''hero-background.png'', ''hero-background.jpg'']
    \<and> stdout t = [check_mark @ '' High-quality background images generated successfully!'',
                  ''  - hero-background.png (transparent, 200 DPI)'',
                  ''  - hero-background.jpg (solid background, 200 DPI)'']
    \<and> fig_closed t
    \<and> (px t, py t, sizes t, alphas t) = particle_arrays np (np_seed np 123)
    else \<exists>k u. run N 0 (script np) (init g fs) = Aborted k IndexError u"
proof -
  let ?N = "\<lambda>_::nat. False"
  obtain xs ys ss as where pa: "particle_arrays np (np_seed np 123) = (xs, ys, ss, as)"
    by (metis prod_cases4)
  define A :: "'a stmt list" where "A = [figure_stmt (19.2, 10.8) 200, gca_stmt, draw imshow_op]
     @ map (\<lambda>c. draw (wave_op c)) wave_configs @ [seed_stmt np 42]"
  define sA where "sA = (init g fs)\<lparr>fig := (new_figure (19.2, 10.8) 200)\<lparr>artists := [imshow_op] @ wave_layer\<rparr>, rng := np_seed np 42\<rparr>"
  have rA: "run ?N 0 A (init g fs) = Finished sA"
    by (simp add: A_def sA_def run_append run_draw_map figure_stmt_def gca_stmt_def draw_def seed_stmt_def wave_layer_def artists_new_figure)
  define B where "B = concat (map (mesh_stmts np) mesh_regions)"
  obtain gB mx my where rB0: "run ?N 0 B sA = Finished (sA\<lparr>rng := gB, mesh_x := mx, mesh_y := my,
       fig := (fig sA)\<lparr>artists := artists (fig sA) @ map triplot_op (mesh_points np (rng sA) mesh_regions)\<rparr>\<rparr>)"
    unfolding B_def using run_mesh[of 0 np mesh_regions sA] by (elim exE) simp
  define sB where "sB = sA\<lparr>rng := gB, mesh_x := mx, mesh_y := my,
       fig := (fig sA)\<lparr>artists := [imshow_op] @ wave_layer @ mesh_layer np\<rparr>\<rparr>"
  have rB: "run ?N 0 B sA = Finished sB"
    using rB0 by (simp add: sB_def sA_def mesh_layer_def)
  define C :: "'a stmt list" where "C = [draw quiver_op]
     @ map (\<lambda>e. draw (text_op e)) equations
     @ concat (map (\<lambda>c. map draw (circle_ops c)) circles)
     @ concat (map (\<lambda>i. map draw (grid_ops i)) (linspace 0.5 9.5 15))
     @ concat (map (\<lambda>c. map draw (corner_ops c)) corner_elements)
     @ [seed_stmt np 123]"
  define sC where "sC = sB\<lparr>rng := np_seed np 123, fig := (fig sB)\<lparr>artists := [imshow_op] @ wave_layer @ mesh_layer np
      @ [quiver_op] @ label_layer @ circle_layer @ grid_layer @ corner_layer\<rparr>\<rparr>"
  have rC: "run ?N 0 C sB = Finished sC"
    by (simp add: C_def sC_def sB_def run_append run_draw_map run_draw_concat draw_def seed_stmt_def
        label_layer_def circle_layer_def grid_layer_def corner_layer_def)
  define D :: "'a stmt list" where "D = [uniform_stmt np (\<lambda>v s. s\<lparr>px := v\<rparr>) 0 10 n_particles,
        uniform_stmt np (\<lambda>v s. s\<lparr>py := v\<rparr>) 0 10 n_particles,
        uniform_stmt np (\<lambda>v s. s\<lparr>sizes := v\<rparr>) 1 4 n_particles,
        uniform_stmt np (\<lambda>v s. s\<lparr>alphas := v\<rparr>) 0.05 0.15 n_particles]"
  have "rng sC = np_seed np 123" by (simp add: sC_def)
  with pa have "particle_arrays np (rng sC) = (xs, ys, ss, as)" by simp
  from run_uniform4[OF this, of 0] obtain gD where
    rD0: "run ?N 0 D sC = Finished (sC\<lparr>px := xs, py := ys, sizes := ss, alphas := as, rng := gD\<rparr>)"
    unfolding D_def by blast
  define sD where "sD = sC\<lparr>px := xs, py := ys, sizes := ss, alphas := as, rng := gD\<rparr>"
  have rD: "run ?N 0 D sC = Finished sD" using rD0 by (simp add: sD_def)
  define E :: "'a stmt list" where "E = map particle_stmt [0..<n_particles]"
  define F :: "'a stmt list" where "F = [set_xlim 0 10, set_ylim 0 10, axis_off, set_aspect ''equal'',
        tight_layout 0,
        savefig ''hero-background.png'' png_args,
        savefig ''hero-background.jpg'' jpg_args,
        close_stmt,
        print (check_mark @ '' High-quality background images generated successfully!''),
        print (''  - hero-background.png (transparent, 200 DPI)''),
        print (''  - hero-background.jpg (solid background, 200 DPI)'')]"
  have scr: "script np = (((((A @ B) @ C) @ D) @ E) @ F)"
    by (simp add: script_def A_def B_def C_def D_def E_def F_def)
  have rP: "run ?N 0 (((A @ B) @ C) @ D) (init g fs) = Finished sD"
    by (rule run_seq[OF run_seq[OF run_seq[OF rA rB] rC] rD])
  have arrays: "px sD = xs" "py sD = ys" "sizes sD = ss" "alphas sD = as"
    by (simp_all add: sD_def)
  show ?thesis
  proof (cases "n_particles \<le> length xs \<and> n_particles \<le> length ys \<and> n_particles \<le> length ss \<and> n_particles \<le> length as")
    case True
    define sE where "sE = sD\<lparr>fig := (fig sD)\<lparr>artists := drawing np\<rparr>\<rparr>"
    have pl: "particle_layer np = map (particle_op xs ys ss as) [0..<n_particles]"
      by (simp add: particle_layer_def pa)
    have inrange: "\<forall>i \<in> set [0..<n_particles]. i < length (px sD) \<and> i < length (py sD)
        \<and> i < length (sizes sD) \<and> i < length (alphas sD)"
      unfolding arrays using True by simp
    have rE: "run ?N 0 E sD = Finished sE"
      unfolding E_def run_particles[OF inrange]
      by (simp add: sD_def sE_def sC_def sB_def drawing_def pl)
    define sF where "sF = sE\<lparr>fig := final_figure np,
       files := fs(''hero-background.png'' \<mapsto> \<lparr>img_format = PNG, img_args = png_args, img_figure = final_figure np\<rparr>,
                     ''hero-background.jpg'' \<mapsto> \<lparr>img_format = JPEG, img_args = jpg_args, img_figure = final_figure np\<rparr>),
       written := [''hero-background.png'', ''hero-background.jpg''],
       stdout := [check_mark @ '' High-quality background images generated successfully!'',
                    ''  - hero-background.png (transparent, 200 DPI)'',
                    ''  - hero-background.jpg (solid background, 200 DPI)''],
       fig_closed := True\<rparr>"
    have fmt: "format_of ''hero-background.png'' = Some PNG" "format_of ''hero-background.jpg'' = Some JPEG"
      by (simp_all add: format_of_def extension_def)
    have figE: "fig sE = (new_figure (19.2, 10.8) 200)\<lparr>artists := drawing np\<rparr>"
      by (simp add: sE_def sD_def sC_def sB_def sA_def)
    have restE: "files sE = fs" "written sE = []" "stdout sE = []"
      by (simp_all add: sE_def sD_def sC_def sB_def sA_def init_def)
    have rF: "run ?N 0 F sE = Finished sF"
      by (simp add: F_def sF_def set_xlim_def set_ylim_def axis_off_def set_aspect_def tight_layout_def
          savefig_def close_stmt_def print_def fmt figE restE final_figure_def)
    have "run ?N 0 (script np) (init g fs) = Finished sF"
      unfolding scr by (rule run_seq[OF run_seq[OF rP rE] rF])
    moreover have "fig sF = final_figure np" "fig_closed sF" by (simp_all add: sF_def)
    moreover have "(px sF, py sF, sizes sF, alphas sF) = particle_arrays np (np_seed np 123)"
      by (simp add: sF_def sE_def sD_def pa)
    moreover have "files sF = fs(''hero-background.png'' \<mapsto> \<lparr>img_format = PNG, img_args = png_args, img_figure = final_figure np\<rparr>,
                     ''hero-background.jpg'' \<mapsto> \<lparr>img_format = JPEG, img_args = jpg_args, img_figure = final_figure np\<rparr>)"
      by (simp add: sF_def)
    moreover have "written sF = [''hero-background.png'', ''hero-background.jpg'']" by (simp add: sF_def)
    moreover have "stdout sF = [check_mark @ '' High-quality background images generated successfully!'',
                    ''  - hero-background.png (transparent, 200 DPI)'',
                    ''  - hero-background.jpg (solid background, 200 DPI)'']" by (simp add: sF_def)
    ultimately show ?thesis using True unfolding N_def pa by simp
  next
    case False
    then have "\<not> (\<forall>i \<in> set [0..<n_particles]. i < length (px sD) \<and> i < length (py sD)
        \<and> i < length (sizes sD) \<and> i < length (alphas sD))"
      unfolding arrays by (auto simp: n_particles_def not_le)
    from run_particles_stuck[OF this, of "length (((A @ B) @ C) @ D)"]
    obtain k u where "run ?N (length (((A @ B) @ C) @ D)) E sD = Aborted k IndexError u"
      unfolding E_def by blast
    then have "run ?N 0 (script np) (init g fs) = Aborted k IndexError u"
      unfolding scr by (rule run_abort_seq[OF rP])
    then show ?thesis using False unfolding N_def pa by auto
  qed
qed

lemma run_script_finished:
  assumes "run (\<lambda>_. False) 0 (script np) (init g fs) = Finished t"
  shows "fig t = final_figure np"
    and "files t = fs(''hero-background.png'' \<mapsto> \<lparr>img_format = PNG, img_args = png_args, img_figure = final_figure np\<rparr>,
                   ''hero-background.jpg'' \<mapsto> \<lparr>img_format = JPEG, img_args = jpg_args, img_figure = final_figure np\<rparr>)"
    and "written t = [''hero-background.png'', ''hero-background.jpg'']"
    and "stdout t = [check_mark @ '' High-quality background images generated successfully!'',
                  ''  - hero-background.png (transparent, 200 DPI)'',
                  ''  - hero-background.jpg (solid background, 200 DPI)'']"
    and "fig_closed t"
    and "(px t, py t, sizes t, alphas t) = particle_arrays np (np_seed np 123)"
  using run_script[of np g fs] assms by (auto split: if_splits)

lemma run_script_ok:
  assumes "case particle_arrays np (np_seed np 123) of (xs, ys, ss, as) \<Rightarrow>
     n_particles \<le> length xs \<and> n_particles \<le> length ys \<and> n_particles \<le> length ss \<and> n_particles \<le> length as"
  shows "\<exists>t. run (\<lambda>_. False) 0 (script np) (init g fs) = Finished t"
  using run_script[of np g fs] assms by (auto split: if_splits)

lemma run_finished_never:
  "run R k cs s = Finished t \<Longrightarrow> run (\<lambda>_. False) k cs s = Finished t"
  by (induction cs arbitrary: k s) (auto split: sum.splits if_splits)

lemma run_clean:
  "run (\<lambda>_. False) k' cs s = Finished t \<Longrightarrow> \<forall>j<length cs. \<not> R (k + j) \<Longrightarrow> run R k cs s = Finished t"
proof (induction cs arbitrary: k k' s)
  case Nil
  then show ?case by simp
next
  case (Cons c cs)
  from Cons.prems(2) have r0: "\<not> R k" and rest: "\<forall>j<length cs. \<not> R (Suc k + j)"
    by force+
  from Cons.prems(1) obtain s' where c: "c s = Inr s'" and r: "run (\<lambda>_. False) (Suc k') cs s' = Finished t"
    by (auto split: sum.splits)
  from Cons.IH[OF r rest] show ?case using r0 c by simp
qed

lemma run_first_raise:
  "run (\<lambda>_. False) k' cs s = Finished t \<Longrightarrow> j < length cs \<Longrightarrow> R (k + j) \<Longrightarrow> \<forall>i<j. \<not> R (k + i) \<Longrightarrow>
   \<exists>u. run (\<lambda>_. False) k' (take j cs) s = Finished u \<and> run R k cs s = Aborted (k + j) LibraryError u"
proof (induction cs arbitrary: k k' s j)
  case Nil
  then show ?case by simp
next
  case (Cons c cs)
  from Cons.prems(1) obtain s' where c: "c s = Inr s'" and r: "run (\<lambda>_. False) (Suc k') cs s' = Finished t"
    by (auto split: sum.splits)
  show ?case
  proof (cases j)
    case 0
    with Cons.prems(3) show ?thesis by simp
  next
    case (Suc j')
    with Cons.prems have j': "j' < length cs" and Rj: "R (Suc k + j')" and r0: "\<not> R k"
      and rest: "\<forall>i<j'. \<not> R (Suc k + i)"
      by force+
    from Cons.IH[OF r j' Rj rest] obtain u where
      "run (\<lambda>_. False) (Suc k') (take j' cs) s' = Finished u" "run R (Suc k) cs s' = Aborted (Suc k + j') LibraryError u"
      by blast
    then show ?thesis using Suc r0 c by simp
  qed
qed

lemma run_aborted:
  "run R k cs s = Aborted j e u \<Longrightarrow>
   \<exists>i<length cs. j = k + i \<and> run (\<lambda>_. False) k' (take i cs) s = Finished u
      \<and> (\<forall>l<i. \<not> R (k + l))
      \<and> (if R j then e = LibraryError else (cs ! i) u = Inl e)"
proof (induction cs arbitrary: k k' s)
  case Nil
  then show ?case by simp
next
  case (Cons c cs)
  show ?case
  proof (cases "R k")
    case True
    with Cons.prems have "j = k" "e = LibraryError" "u = s" by simp_all
    with True show ?thesis by (intro exI[of _ 0]) simp
  next
    case notR: False
    show ?thesis
    proof (cases "c s")
      case (Inl e')
      with Cons.prems notR have "j = k" "e = e'" "u = s" by simp_all
      with notR Inl show ?thesis by (intro exI[of _ 0]) simp
    next
      case (Inr s')
      with Cons.prems notR have "run R (Suc k) cs s' = Aborted j e u" by simp
      from Cons.IH[OF this, of "Suc k'"] obtain i where
        i: "i < length cs" "j = Suc k + i" "run (\<lambda>_. False) (Suc k') (take i cs) s' = Finished u"
          "\<forall>l<i. \<not> R (Suc k + l)" "if R j then e = LibraryError else (cs ! i) u = Inl e"
        by blast
      have "\<forall>l<Suc i. \<not> R (k + l)"
        using i(4) notR by (auto simp: less_Suc_eq_0_disj)
      with i Inr show ?thesis by (intro exI[of _ "Suc i"]) simp
    qed
  qed
qed

lemma length_concat_const:
  "(\<And>x. length (f x) = n) \<Longrightarrow> length (concat (map f xs)) = n * length xs"
  by (induction xs) simp_all

lemma length_linspace: "length (linspace a b n) = n"
  by (simp add: linspace_def)

lemma length_script: "length (script np) = 159"
proof -
  have g: "length (concat (map (\<lambda>i. map draw (grid_ops i)) (linspace 0.5 9.5 15)) :: 'a stmt list) = 30"
    by (subst length_concat_const[where n = 2]) (simp_all add: grid_ops_def length_linspace)
  show ?thesis
    unfolding script_def length_append g
    by (simp add: wave_configs_def mesh_regions_def equations_def circles_def
        corner_elements_def n_particles_def)
qed

lemma contract_particles:
  assumes "uniform_contract np"
  shows "case particle_arrays np g of (xs, ys, ss, as) \<Rightarrow>
     (length xs = n_particles \<and> length ys = n_particles \<and> length ss = n_particles \<and> length as = n_particles)
     \<and> list_all (\<lambda>v. 0 \<le> v \<and> v \<le> 10) xs \<and> list_all (\<lambda>v. 0 \<le> v \<and> v \<le> 10) ys
     \<and> list_all (\<lambda>v. 1 \<le> v \<and> v \<le> 4) ss \<and> list_all (\<lambda>v. 0.05 \<le> v \<and> v \<le> 0.15) as"
proof -
  have u: "\<And>g low high n. low \<le> high \<Longrightarrow> length (fst (np_uniform np g low high n)) = n \<and>
        list_all (\<lambda>v. low \<le> v \<and> v \<le> high) (fst (np_uniform np g low high n))"
    using assms unfolding uniform_contract_def by blast
  obtain x1 g1 where u1: "np_uniform np g 0 10 n_particles = (x1, g1)" by fastforce
  obtain x2 g2 where u2: "np_uniform np g1 0 10 n_particles = (x2, g2)" by fastforce
  obtain x3 g3 where u3: "np_uniform np g2 1 4 n_particles = (x3, g3)" by fastforce
  obtain x4 g4 where u4: "np_uniform np g3 0.05 0.15 n_particles = (x4, g4)" by fastforce
  have pa: "particle_arrays np g = (x1, x2, x3, x4)"
    using u1 u2 u3 u4 by (simp add: particle_arrays_def)
  from u[of 0 10 g n_particles] u1 have p1: "length x1 = n_particles" "list_all (\<lambda>v. 0 \<le> v \<and> v \<le> 10) x1" by simp_all
  from u[of 0 10 g1 n_particles] u2 have p2: "length x2 = n_particles" "list_all (\<lambda>v. 0 \<le> v \<and> v \<le> 10) x2" by simp_all
  from u[of 1 4 g2 n_particles] u3 have p3: "length x3 = n_particles" "list_all (\<lambda>v. 1 \<le> v \<and> v \<le> 4) x3" by simp_all
  from u[of "0.05" "0.15" g3 n_particles] u4 have p4: "length x4 = n_particles" "list_all (\<lambda>v. 0.05 \<le> v \<and> v \<le> 0.15) x4" by simp_all
  show ?thesis unfolding pa using p1 p2 p3 p4 by simp
qed

lemma counter_contract: "uniform_contract counter_np"
proof -
  have "low \<le> low + (high - low) * (real (k mod 10) / 10) \<and> low + (high - low) * (real (k mod 10) / 10) \<le> high"
    if "low \<le> high" for low high :: real and k :: nat
  proof -
    define q where "q = real (k mod 10) / 10"
    define d where "d = high - low"
    have q: "0 \<le> q" "q \<le> 1" by (simp_all add: q_def)
    have d: "0 \<le> d" using that by (simp add: d_def)
    have "0 \<le> d * q" using d q(1) by (rule mult_nonneg_nonneg)
    moreover have "d * q \<le> d" using q(2) d by (rule mult_left_le)
    ultimately have "low \<le> low + d * q \<and> low + d * q \<le> high"
      by (simp add: d_def)
    then show ?thesis by (simp only: q_def d_def)
  qed
  then show ?thesis
    by (simp add: uniform_contract_def counter_np_def list_all_iff)
qed

section \<open>Complete runs\<close>

text \<open>A run with exit status 0 went through every statement; its final state is the one
  computed above, whatever the generator and the working directory were at the start.\<close>

lemma main_finished:
  assumes "exit_code (main np R g fs) = 0"
  shows "run (\<lambda>_. False) 0 (script np) (init g fs) = Finished (last_state (main np R g fs))"
proof -
  from assms obtain t where t: "main np R g fs = Finished t"
    by (cases "main np R g fs") simp_all
  then have "run (\<lambda>_. False) 0 (script np) (init g fs) = Finished t"
    unfolding main_def by (rule run_finished_never)
  with t show ?thesis by simp
qed

lemma contract_lengths:
  assumes "uniform_contract np"
  shows "case particle_arrays np g of (xs, ys, ss, as) \<Rightarrow>
     n_particles \<le> length xs \<and> n_particles \<le> length ys \<and> n_particles \<le> length ss \<and> n_particles \<le> length as"
  using contract_particles[OF assms, of g] by (auto split: prod.splits)

lemma main_success:
  assumes "exit_code (main np R g fs) = 0"
  defines "t \<equiv> last_state (main np R g fs)"
  shows "fig t = final_figure np"
    and "files t = fs(''hero-background.png'' \<mapsto> \<lparr>img_format = PNG, img_args = png_args, img_figure = final_figure np\<rparr>,
                   ''hero-background.jpg'' \<mapsto> \<lparr>img_format = JPEG, img_args = jpg_args, img_figure = final_figure np\<rparr>)"
    and "written t = [''hero-background.png'', ''hero-background.jpg'']"
    and "stdout t = [check_mark @ '' High-quality background images generated successfully!'',
                  ''  - hero-background.png (transparent, 200 DPI)'',
                  ''  - hero-background.jpg (solid background, 200 DPI)'']"
    and "fig_closed t"
    and "(px t, py t, sizes t, alphas t) = particle_arrays np (np_seed np 123)"
  unfolding t_def by (rule run_script_finished[OF main_finished[OF assms(1)]])+

lemma main_clean:
  assumes "uniform_contract np" and "\<forall>k<length (script np). \<not> R k"
  shows "exit_code (main np R g fs) = 0"
proof -
  from run_script_ok[OF contract_lengths[OF assms(1)], of g fs]
  obtain t where "run (\<lambda>_. False) 0 (script np) (init g fs) = Finished t" by blast
  from run_clean[OF this, of R 0] assms(2) have "main np R g fs = Finished t"
    by (simp add: main_def)
  then show ?thesis by simp
qed

lemma artists_final: "artists (final_figure np) = drawing np"
  by (simp add: final_figure_def)

section \<open>Facts about the layers\<close>

text \<open>Bounds, lengths, shapes and opacities of the layers, and the entries of the arrays
  behind the arrows.\<close>

lemma wave_y_bounds:
  "offset - 1.5 \<le> wave_y freq phase offset tv \<and> wave_y freq phase offset tv \<le> offset + 1.5"
proof -
  have lin: "offset - 1.5 \<le> offset + 1.2 * a + 0.3 * b \<and> offset + 1.2 * a + 0.3 * b \<le> offset + 1.5"
    if "- 1 \<le> a" "a \<le> 1" "- 1 \<le> b" "b \<le> 1" for a b :: real
    using that by simp
  show ?thesis unfolding wave_y_def
    by (rule lin) (rule sin_ge_minus_one sin_le_one)+
qed

lemma t_arr_range: "list_all (\<lambda>tv. 0 \<le> tv \<and> tv \<le> 10) t_arr"
proof -
  have "real i * (10 / 1999) \<le> 10" if "i < 2000" for i :: nat
  proof -
    from that have "real i \<le> 1999" by simp
    then show ?thesis by simp
  qed
  then show ?thesis by (simp add: t_arr_def linspace_def list_all_iff)
qed

lemma disc_in_box:
  fixes x y cx cy r :: real
  assumes "(x - cx)\<^sup>2 + (y - cy)\<^sup>2 \<le> r\<^sup>2" and "0 \<le> r"
  shows "cx - r \<le> x \<and> x \<le> cx + r \<and> cy - r \<le> y \<and> y \<le> cy + r"
proof -
  have "(x - cx)\<^sup>2 \<le> r\<^sup>2"
    using assms(1) zero_le_power2[of "y - cy"] by linarith
  then have x: "\<bar>x - cx\<bar> \<le> r" using abs_le_square_iff[of "x - cx" r] assms(2) by simp
  have "(y - cy)\<^sup>2 \<le> r\<^sup>2"
    using assms(1) zero_le_power2[of "x - cx"] by linarith
  then have y: "\<bar>y - cy\<bar> \<le> r" using abs_le_square_iff[of "y - cy" r] assms(2) by simp
  from x y show ?thesis by linarith
qed

lemma length_mesh_points: "length (mesh_points np g rs) = length rs"
  by (induction rs arbitrary: g) (auto split: prod.splits)

lemma layer_lengths:
  "length wave_layer = 5" "length (mesh_layer np) = 3" "length label_layer = 4"
  "length circle_layer = 6" "length grid_layer = 30" "length corner_layer = 4"
  "length (particle_layer np) = 80"
proof -
  show "length grid_layer = 30"
    unfolding grid_layer_def
    by (subst length_concat_const[where n = 2]) (simp_all add: grid_ops_def length_linspace)
  show "length (particle_layer np) = 80"
    by (simp add: particle_layer_def n_particles_def split: prod.splits)
  have "length (mesh_layer np) = length mesh_regions"
    by (simp add: mesh_layer_def length_mesh_points)
  then show "length (mesh_layer np) = 3"
    by (simp add: mesh_regions_def)
qed (simp_all add: wave_layer_def wave_configs_def
      label_layer_def equations_def circle_layer_def circles_def corner_layer_def corner_elements_def)

lemma layer_shapes:
  "\<forall>a\<in>set wave_layer. op_shape a = Line"
  "\<forall>a\<in>set (mesh_layer np). op_shape a = Mesh"
  "\<forall>a\<in>set label_layer. op_shape a = Label"
  "\<forall>a\<in>set circle_layer. op_shape a = Ring"
  "\<forall>a\<in>set grid_layer. op_shape a = Line"
  "\<forall>a\<in>set corner_layer. op_shape a = Line"
  "\<forall>a\<in>set (particle_layer np). op_shape a = Dot"
  by (auto simp: wave_layer_def mesh_layer_def triplot_op_def label_layer_def circle_layer_def
      grid_layer_def grid_ops_def corner_layer_def particle_layer_def particle_op_def split: prod.splits)

lemma map_const_replicate:
  "\<forall>a\<in>set xs. f a = c \<Longrightarrow> map f xs = replicate (length xs) c"
  by (induction xs) simp_all

lemma shapes_drawing:
  "map op_shape (drawing np) =
     [Image] @ replicate 5 Line @ replicate 3 Mesh @ [Arrows] @ replicate 4 Label
     @ replicate 6 Ring @ replicate 30 Line @ replicate 4 Line @ replicate 80 Dot"
  unfolding drawing_def map_append
  by (simp only: map_const_replicate[OF layer_shapes(1)] map_const_replicate[OF layer_shapes(2)]
      map_const_replicate[OF layer_shapes(3)] map_const_replicate[OF layer_shapes(4)]
      map_const_replicate[OF layer_shapes(5)] map_const_replicate[OF layer_shapes(6)]
      map_const_replicate[OF layer_shapes(7)] layer_lengths)
     (simp add: imshow_op_def quiver_op_def)

lemma rings_drawing: "filter (\<lambda>a. op_shape a = Ring) (drawing np) = circle_layer"
proof -
  have no: "filter (\<lambda>a. op_shape a = Ring) xs = []" if "\<forall>a\<in>set xs. op_shape a = c" "c \<noteq> Ring" for xs c
    using that by (auto simp: filter_empty_conv)
  have yes: "filter (\<lambda>a. op_shape a = Ring) circle_layer = circle_layer"
    using layer_shapes(4) by (auto simp: filter_id_conv)
  show ?thesis
    unfolding drawing_def filter_append yes
    by (simp add: no[OF layer_shapes(1)] no[OF layer_shapes(2)] no[OF layer_shapes(3)]
        no[OF layer_shapes(5)] no[OF layer_shapes(6)] no[OF layer_shapes(7)] imshow_op_def quiver_op_def)
qed

lemma counter_exit: "exit_code (main counter_np (\<lambda>_. False) g fs) = 0"
  by (rule main_clean[OF counter_contract]) simp

lemma mesh_points_in_region:
  assumes "uniform_contract np"
  shows "list_all (\<lambda>(bounds, n). bounds ! 0 \<le> bounds ! 1 \<and> bounds ! 2 \<le> bounds ! 3) rs \<Longrightarrow>
         list_all2 in_region (mesh_points np g rs) rs"
proof (induction rs arbitrary: g)
  case Nil
  then show ?case by simp
next
  case (Cons r rs)
  obtain bounds n where r: "r = (bounds, n)" by (cases r)
  have u: "\<And>g low high n. low \<le> high \<Longrightarrow> length (fst (np_uniform np g low high n)) = n \<and>
        list_all (\<lambda>v. low \<le> v \<and> v \<le> high) (fst (np_uniform np g low high n))"
    using assms unfolding uniform_contract_def by blast
  obtain mx g1 where u1: "np_uniform np g (bounds ! 0) (bounds ! 1) n = (mx, g1)" by fastforce
  obtain my g2 where u2: "np_uniform np g1 (bounds ! 2) (bounds ! 3) n = (my, g2)" by fastforce
  from Cons.prems r have b: "bounds ! 0 \<le> bounds ! 1" "bounds ! 2 \<le> bounds ! 3"
    and rest: "list_all (\<lambda>(bounds, n). bounds ! 0 \<le> bounds ! 1 \<and> bounds ! 2 \<le> bounds ! 3) rs"
    by simp_all
  from u[OF b(1), of g n] u1 have p1: "length mx = n" "list_all (\<lambda>v. bounds ! 0 \<le> v \<and> v \<le> bounds ! 1) mx"
    by simp_all
  from u[OF b(2), of g1 n] u2 have p2: "length my = n" "list_all (\<lambda>v. bounds ! 2 \<le> v \<and> v \<le> bounds ! 3) my"
    by simp_all
  have "mesh_points np g (r # rs) = (mx, my) # mesh_points np g2 rs"
    using u1 u2 by (simp add: r)
  then show ?case using p1 p2 Cons.IH[OF rest, of g2] by (simp add: r)
qed

lemma region_points_in_canvas:
  "list_all2 in_region ms rs \<Longrightarrow>
   list_all (\<lambda>(bounds, n). 0 \<le> bounds ! 0 \<and> bounds ! 1 \<le> 10 \<and> 0 \<le> bounds ! 2 \<and> bounds ! 3 \<le> 10) rs \<Longrightarrow>
   list_all (\<lambda>a. list_all in_canvas (random_points a)) (map triplot_op ms)"
proof (induction ms rs rule: list_all2_induct)
  case Nil
  then show ?case by simp
next
  case (Cons m ms r rs)
  obtain mx my where m: "m = (mx, my)" by (cases m)
  obtain bounds n where r: "r = (bounds, n)" by (cases r)
  from Cons.hyps(1) m r have
    x: "\<forall>v\<in>set mx. bounds ! 0 \<le> v \<and> v \<le> bounds ! 1" and y: "\<forall>v\<in>set my. bounds ! 2 \<le> v \<and> v \<le> bounds ! 3"
    by (simp_all add: list_all_iff)
  from Cons.prems r have b: "0 \<le> bounds ! 0" "bounds ! 1 \<le> 10" "0 \<le> bounds ! 2" "bounds ! 3 \<le> 10"
    by simp_all
  have "in_canvas p" if "p \<in> set (zip mx my)" for p
  proof -
    from that have "fst p \<in> set mx" "snd p \<in> set my"
      by (metis in_set_zipE prod.collapse)+
    with x y b show ?thesis unfolding in_canvas_def by fastforce
  qed
  then have "list_all in_canvas (random_points (triplot_op m))"
    by (simp add: m triplot_op_def list_all_iff)
  with Cons show ?case by simp
qed

lemma mesh_regions_ok:
  "list_all (\<lambda>(bounds, n). bounds ! 0 \<le> bounds ! 1 \<and> bounds ! 2 \<le> bounds ! 3) mesh_regions"
  "list_all (\<lambda>(bounds, n). 0 \<le> bounds ! 0 \<and> bounds ! 1 \<le> 10 \<and> 0 \<le> bounds ! 2 \<and> bounds ! 3 \<le> 10) mesh_regions"
  by (simp_all add: mesh_regions_def)

lemma no_points:
  "\<forall>a\<in>set xs. op_shape a = c \<Longrightarrow> c \<noteq> Mesh \<Longrightarrow> c \<noteq> Dot \<Longrightarrow>
   list_all (\<lambda>a. list_all in_canvas (random_points a)) xs"
proof -
  have "random_points a = []" if "op_shape a \<noteq> Mesh" "op_shape a \<noteq> Dot" for a
    using that by (cases a) simp_all
  then show "\<forall>a\<in>set xs. op_shape a = c \<Longrightarrow> c \<noteq> Mesh \<Longrightarrow> c \<noteq> Dot \<Longrightarrow> ?thesis"
    by (simp add: list_all_iff)
qed

lemma particle_points_in_canvas:
  assumes "uniform_contract np"
  shows "list_all (\<lambda>a. list_all in_canvas (random_points a)) (particle_layer np)"
proof -
  obtain xs ys ss as where pa: "particle_arrays np (np_seed np 123) = (xs, ys, ss, as)"
    by (metis prod_cases4)
  from contract_particles[OF assms, of "np_seed np 123"] pa
  have l: "length xs = n_particles" "length ys = n_particles"
    and x: "list_all (\<lambda>v. 0 \<le> v \<and> v \<le> 10) xs" and y: "list_all (\<lambda>v. 0 \<le> v \<and> v \<le> 10) ys"
    by simp_all
  have "in_canvas (xs ! i, ys ! i)" if "i < n_particles" for i
    using that x y l by (simp add: in_canvas_def list_all_length)
  then show ?thesis
    by (simp add: particle_layer_def pa particle_op_def list_all_iff)
qed

lemma points_drawing:
  assumes "uniform_contract np"
  shows "list_all (\<lambda>a. list_all in_canvas (random_points a)) (drawing np)"
proof -
  have m: "list_all (\<lambda>a. list_all in_canvas (random_points a)) (mesh_layer np)"
    unfolding mesh_layer_def
    by (rule region_points_in_canvas[OF mesh_points_in_region[OF assms mesh_regions_ok(1)] mesh_regions_ok(2)])
  show ?thesis
    unfolding drawing_def list_all_append
    using m particle_points_in_canvas[OF assms]
      no_points[OF layer_shapes(1)] no_points[OF layer_shapes(3)] no_points[OF layer_shapes(4)]
      no_points[OF layer_shapes(5)] no_points[OF layer_shapes(6)]
    by (simp add: imshow_op_def quiver_op_def)
qed

lemma alpha_concat:
  "(\<And>x. x \<in> set xs \<Longrightarrow> list_all P (f x)) \<Longrightarrow> list_all P (concat (map f xs))"
  by (induction xs) simp_all

lemma alphas_drawing:
  assumes "uniform_contract np"
  shows "list_all (\<lambda>a. 0 \<le> op_alpha a \<and> op_alpha a \<le> 1) (drawing np)"
proof -
  let ?P = "\<lambda>a. 0 \<le> op_alpha a \<and> op_alpha a \<le> 1"
  have w: "list_all ?P wave_layer"
    by (simp add: wave_layer_def wave_configs_def)
  have m: "list_all ?P (mesh_layer np)"
    by (simp add: mesh_layer_def triplot_op_def list_all_iff)
  have l: "list_all ?P label_layer"
    by (simp add: label_layer_def equations_def)
  have c: "list_all ?P circle_layer"
    by (simp add: circle_layer_def circles_def)
  have g: "list_all ?P grid_layer"
    unfolding grid_layer_def by (rule alpha_concat) (simp add: grid_ops_def)
  have k: "list_all ?P corner_layer"
    by (simp add: corner_layer_def corner_elements_def)
  obtain xs ys ss as where pa: "particle_arrays np (np_seed np 123) = (xs, ys, ss, as)"
    by (metis prod_cases4)
  from contract_particles[OF assms, of "np_seed np 123"] pa
  have len: "length as = n_particles" and rng: "\<forall>i<length as. 0.05 \<le> as ! i \<and> as ! i \<le> 0.15"
    by (simp_all add: list_all_length)
  have "0 \<le> as ! i \<and> as ! i \<le> 1" if "i < n_particles" for i
  proof -
    from rng len that have "0.05 \<le> as ! i" "as ! i \<le> 0.15" by simp_all
    moreover have "(0::real) \<le> 0.05" "(0.15::real) \<le> 1" by simp_all
    ultimately show ?thesis by (meson order_trans)
  qed
  then have p: "list_all ?P (particle_layer np)"
    by (simp add: particle_layer_def pa particle_op_def list_all_iff)
  show ?thesis
    unfolding drawing_def list_all_append
    using w m l c g k p by (simp add: imshow_op_def quiver_op_def)
qed

lemma shape_row: "is_shape n m A \<Longrightarrow> i < n \<Longrightarrow> length (A ! i) = m"
  by (simp add: is_shape_def list_all_length)

lemma shape_ew: "is_shape n m A \<Longrightarrow> is_shape n m (ew f A)"
  by (simp add: is_shape_def ew_def list_all_iff)

lemma shape_ew2: "is_shape n m A \<Longrightarrow> is_shape n m B \<Longrightarrow> is_shape n m (ew2 f A B)"
  by (auto simp: is_shape_def ew2_def list_all_iff set_zip)

lemma nth_ew: "is_shape n m A \<Longrightarrow> i < n \<Longrightarrow> j < m \<Longrightarrow> ew f A ! i ! j = f (A ! i ! j)"
  using shape_row[of n m A i] by (simp add: ew_def is_shape_def)

lemma nth_ew2:
  "is_shape n m A \<Longrightarrow> is_shape n m B \<Longrightarrow> i < n \<Longrightarrow> j < m \<Longrightarrow>
   ew2 f A B ! i ! j = f (A ! i ! j) (B ! i ! j)"
  using shape_row[of n m A i] shape_row[of n m B i] by (simp add: ew2_def is_shape_def)

lemma shape_grids: "is_shape 12 12 X_grid" "is_shape 12 12 Y_grid"
  by (simp_all add: is_shape_def X_grid_def Y_grid_def mgrid_def list_all_iff)

lemma nth_grids:
  assumes "i < 12" "j < 12"
  shows "X_grid ! i ! j = 0.8 + real j * ((9.2 - 0.8) / 11)"
    and "Y_grid ! i ! j = 0.8 + real i * ((9.2 - 0.8) / 11)"
  using assms by (simp_all add: X_grid_def Y_grid_def mgrid_def)

lemma shape_flow:
  "is_shape 12 12 dx_arr" "is_shape 12 12 dy_arr" "is_shape 12 12 r_arr"
  "is_shape 12 12 U_spiral" "is_shape 12 12 V_spiral" "is_shape 12 12 U_arr" "is_shape 12 12 V_arr"
proof -
  show dx: "is_shape 12 12 dx_arr" unfolding dx_arr_def by (intro shape_ew shape_grids)
  show dy: "is_shape 12 12 dy_arr" unfolding dy_arr_def by (intro shape_ew shape_grids)
  show r: "is_shape 12 12 r_arr" unfolding r_arr_def by (intro shape_ew shape_ew2 dx dy)
  show us: "is_shape 12 12 U_spiral" unfolding U_spiral_def by (intro shape_ew shape_ew2 dx dy r)
  show vs: "is_shape 12 12 V_spiral" unfolding V_spiral_def by (intro shape_ew shape_ew2 dx dy r)
  show "is_shape 12 12 U_arr" unfolding U_arr_def by (intro shape_ew shape_ew2 dx dy us)
  show "is_shape 12 12 V_arr" unfolding V_arr_def by (intro shape_ew shape_ew2 dx dy vs)
qed

lemma nth_flow:
  assumes i: "i < 12" and j: "j < 12"
  defines "dx \<equiv> X_grid ! i ! j - 5" and "dy \<equiv> Y_grid ! i ! j - 5"
  defines "r \<equiv> sqrt (dx\<^sup>2 + dy\<^sup>2) + 0.1"
  shows "dx_arr ! i ! j = dx" and "dy_arr ! i ! j = dy" and "r_arr ! i ! j = r"
    and "U_spiral ! i ! j = - dy / r * exp (- r / 4)"
    and "V_spiral ! i ! j = dx / r * exp (- r / 4)"
    and "U_arr ! i ! j = - dy / r * exp (- r / 4) + - 0.15 * dx"
    and "V_arr ! i ! j = dx / r * exp (- r / 4) + - 0.15 * dy"
proof -
  show dx: "dx_arr ! i ! j = dx"
    unfolding dx_arr_def dx_def nth_ew[OF shape_grids(1) i j] by (simp add: center_flow_def)
  show dy: "dy_arr ! i ! j = dy"
    unfolding dy_arr_def dy_def nth_ew[OF shape_grids(2) i j] by (simp add: center_flow_def)
  have sq: "is_shape 12 12 (ew (\<lambda>v. v\<^sup>2) dx_arr)" "is_shape 12 12 (ew (\<lambda>v. v\<^sup>2) dy_arr)"
    by (intro shape_ew shape_flow)+
  have sm: "is_shape 12 12 (ew2 (+) (ew (\<lambda>v. v\<^sup>2) dx_arr) (ew (\<lambda>v. v\<^sup>2) dy_arr))"
    by (intro shape_ew2 sq)
  have rt: "is_shape 12 12 (ew sqrt (ew2 (+) (ew (\<lambda>v. v\<^sup>2) dx_arr) (ew (\<lambda>v. v\<^sup>2) dy_arr)))"
    by (intro shape_ew sm)
  show r: "r_arr ! i ! j = r"
    unfolding r_arr_def r_def nth_ew[OF rt i j] nth_ew[OF sm i j] nth_ew2[OF sq i j]
        nth_ew[OF shape_flow(1) i j] nth_ew[OF shape_flow(2) i j] dx dy
    by (rule refl)
  have ex: "is_shape 12 12 (ew (\<lambda>v. exp (- v / 4)) r_arr)" by (intro shape_ew shape_flow)
  have nd: "is_shape 12 12 (ew uminus dy_arr)" by (intro shape_ew shape_flow)
  have q1: "is_shape 12 12 (ew2 (/) (ew uminus dy_arr) r_arr)" by (intro shape_ew2 nd shape_flow)
  have q2: "is_shape 12 12 (ew2 (/) dx_arr r_arr)" by (intro shape_ew2 shape_flow)
  show us: "U_spiral ! i ! j = - dy / r * exp (- r / 4)"
    unfolding U_spiral_def nth_ew2[OF q1 ex i j] nth_ew2[OF nd shape_flow(3) i j]
      nth_ew[OF shape_flow(3) i j] nth_ew[OF shape_flow(2) i j] dy r
    by (rule refl)
  show vs: "V_spiral ! i ! j = dx / r * exp (- r / 4)"
    unfolding V_spiral_def nth_ew2[OF q2 ex i j] nth_ew2[OF shape_flow(1) shape_flow(3) i j]
        nth_ew[OF shape_flow(3) i j] dx r
    by (rule refl)
  have gx: "is_shape 12 12 (ew (\<lambda>v. - 0.15 * v) dx_arr)" "is_shape 12 12 (ew (\<lambda>v. - 0.15 * v) dy_arr)"
    by (intro shape_ew shape_flow)+
  show "U_arr ! i ! j = - dy / r * exp (- r / 4) + - 0.15 * dx"
    unfolding U_arr_def nth_ew2[OF shape_flow(4) gx(1) i j] nth_ew[OF shape_flow(1) i j] us dx
    by (rule refl)
  show "V_arr ! i ! j = dx / r * exp (- r / 4) + - 0.15 * dy"
    unfolding V_arr_def nth_ew2[OF shape_flow(5) gx(2) i j] nth_ew[OF shape_flow(2) i j] vs dy
    by (rule refl)
qed

lemma spiral_norm:
  assumes i: "i < 12" and j: "j < 12"
  defines "dx \<equiv> X_grid ! i ! j - 5" and "dy \<equiv> Y_grid ! i ! j - 5"
  defines "r \<equiv> sqrt (dx\<^sup>2 + dy\<^sup>2) + 0.1"
  shows "sqrt ((U_spiral ! i ! j)\<^sup>2 + (V_spiral ! i ! j)\<^sup>2) = exp (- r / 4) / r * sqrt (dx\<^sup>2 + dy\<^sup>2)"
proof -
  define c where "c = exp (- r / 4) / r"
  have "0 \<le> sqrt (dx\<^sup>2 + dy\<^sup>2)" by simp
  then have r: "0 < r" unfolding r_def by linarith
  then have c: "0 \<le> c" by (simp add: c_def)
  note f = nth_flow[OF i j, folded dx_def dy_def, folded r_def]
  have u: "U_spiral ! i ! j = c * (- dy)" and v: "V_spiral ! i ! j = c * dx"
    using f(4,5) by (simp_all add: c_def)
  have "(U_spiral ! i ! j)\<^sup>2 + (V_spiral ! i ! j)\<^sup>2 = c\<^sup>2 * (dx\<^sup>2 + dy\<^sup>2)"
    unfolding u v by (simp add: power2_eq_square algebra_simps)
  then have "sqrt ((U_spiral ! i ! j)\<^sup>2 + (V_spiral ! i ! j)\<^sup>2) = sqrt (c\<^sup>2) * sqrt (dx\<^sup>2 + dy\<^sup>2)"
    by (simp add: real_sqrt_mult)
  also have "sqrt (c\<^sup>2) = c" using c by simp
  finally show ?thesis unfolding c_def .
qed

section \<open>Verified properties\<close>

text \<open>
  C9. For every wave configuration \<open>(freq, phase, alpha_val, lw, offset)\<close> of
  \<open>wave_configs\<close> and every abscissa \<open>tv\<close> (in particular the 2000 samples of \<open>t\<close>, which all
  lie in \<open>[0, 10]\<close>), the plotted ordinate
  \<open>offset + 1.2 * sin (freq * tv + phase) + 0.3 * sin (freq * 2 * tv)\<close> lies between
  \<open>offset - 1.5\<close> and \<open>offset + 1.5\<close>; every offset lies in \<open>[4, 6]\<close>, so each curve stays in
  the band \<open>[2.5, 7.5]\<close>, strictly inside the canvas bounds.
\<close>

theorem wave_within_band:
  assumes "(freq, phase, alpha_val, lw, offset) \<in> set wave_configs"
  shows "wave_op (freq, phase, alpha_val, lw, offset) =
           Plot t_arr (map (wave_y freq phase offset) t_arr) ''white'' lw alpha_val (Some ''round'')
       \<and> list_all (\<lambda>tv. 0 \<le> tv \<and> tv \<le> 10) t_arr
       \<and> offset - 1.5 \<le> wave_y freq phase offset tv \<and> wave_y freq phase offset tv \<le> offset + 1.5
       \<and> 4.0 \<le> offset \<and> offset \<le> 6.0
       \<and> 2.5 \<le> wave_y freq phase offset tv \<and> wave_y freq phase offset tv \<le> 7.5
       \<and> 0 < wave_y freq phase offset tv \<and> wave_y freq phase offset tv < 10"
proof -
  have off: "4.0 \<le> offset \<and> offset \<le> 6.0"
    using assms by (auto simp: wave_configs_def)
  have b: "offset - 1.5 \<le> wave_y freq phase offset tv \<and> wave_y freq phase offset tv \<le> offset + 1.5"
    by (rule wave_y_bounds)
  from off b have "2.5 \<le> wave_y freq phase offset tv \<and> wave_y freq phase offset tv \<le> 7.5" by simp
  with off b t_arr_range show ?thesis by (simp add: y_wave_def)
qed

theorem wave_within_band_witness:
  "(2.4, pi / 3, 0.18, 2.0, 4.5) \<in> set wave_configs
   \<and> 3.0 \<le> wave_y 2.4 (pi / 3) 4.5 1 \<and> wave_y 2.4 (pi / 3) 4.5 1 \<le> 6.0
   \<and> 2.5 \<le> wave_y 2.4 (pi / 3) 4.5 1 \<and> wave_y 2.4 (pi / 3) 4.5 1 \<le> 7.5"
proof -
  have m: "(2.4, pi / 3, 0.18, 2.0, 4.5) \<in> set wave_configs"
    by (simp add: wave_configs_def)
  show ?thesis using m wave_within_band[OF m, of 1] by simp
qed

text \<open>
  C2. A complete run leaves on the axes, in this order and with nothing else: one gradient
  image, five wave strokes, three triangulated meshes, one field of arrows on a
  \<open>12 \<times> 12\<close> grid, four labels, three pairs of circle outlines, thirty grid lines, two
  corner marks of two strokes each, and eighty particle dots.
\<close>

theorem draw_sequence:
  assumes "exit_code (main np R g fs) = 0"
  shows "artists (fig (last_state (main np R g fs))) =
           [imshow_op] @ wave_layer @ mesh_layer np @ [quiver_op] @ label_layer @ circle_layer
           @ grid_layer @ corner_layer @ particle_layer np
       \<and> map op_shape (artists (fig (last_state (main np R g fs)))) =
           [Image] @ replicate 5 Line @ replicate 3 Mesh @ [Arrows] @ replicate 4 Label
           @ replicate 6 Ring @ replicate 30 Line @ replicate 4 Line @ replicate 80 Dot
       \<and> map op_shape wave_layer = replicate 5 Line
       \<and> map op_shape (mesh_layer np) = replicate 3 Mesh
       \<and> op_shape quiver_op = Arrows \<and> is_shape 12 12 X_grid \<and> is_shape 12 12 Y_grid
       \<and> map op_shape label_layer = replicate 4 Label
       \<and> map (map op_shape \<circ> circle_ops) circles = replicate 3 [Ring, Ring]
       \<and> map op_shape grid_layer = replicate 30 Line
       \<and> map (map op_shape \<circ> corner_ops) corner_elements = replicate 2 [Line, Line]
       \<and> map op_shape (particle_layer np) = replicate 80 Dot"
proof -
  have a: "artists (fig (last_state (main np R g fs))) = drawing np"
    by (simp add: main_success(1)[OF assms] artists_final)
  have grid: "is_shape 12 12 X_grid" "is_shape 12 12 Y_grid"
    by (simp_all add: is_shape_def X_grid_def Y_grid_def mgrid_def list_all_iff)
  have pairs: "map (map op_shape \<circ> circle_ops) circles = replicate 3 [Ring, Ring]"
    "map (map op_shape \<circ> corner_ops) corner_elements = replicate 2 [Line, Line]"
    by (simp_all add: circles_def corner_elements_def numeral_3_eq_3 numeral_2_eq_2)
  have l1: "map op_shape wave_layer = replicate 5 Line"
    using map_const_replicate[OF layer_shapes(1)] by (simp add: layer_lengths)
  have l2: "map op_shape (mesh_layer np) = replicate 3 Mesh"
    using map_const_replicate[OF layer_shapes(2), of np] by (simp add: layer_lengths)
  have l3: "map op_shape label_layer = replicate 4 Label"
    using map_const_replicate[OF layer_shapes(3)] by (simp add: layer_lengths)
  have l5: "map op_shape grid_layer = replicate 30 Line"
    using map_const_replicate[OF layer_shapes(5)] by (simp add: layer_lengths)
  have l7: "map op_shape (particle_layer np) = replicate 80 Dot"
    using map_const_replicate[OF layer_shapes(7), of np] by (simp add: layer_lengths)
  have q: "op_shape quiver_op = Arrows" by (simp add: quiver_op_def)
  have d: "drawing np = [imshow_op] @ wave_layer @ mesh_layer np @ [quiver_op] @ label_layer @ circle_layer
           @ grid_layer @ corner_layer @ particle_layer np"
    by (rule drawing_def)
  show ?thesis
    unfolding a
    by (intro conjI d shapes_drawing l1 l2 l3 l5 l7 q grid pairs)
qed

theorem draw_sequence_witness:
  "exit_code (main counter_np (\<lambda>_. False) 0 Map.empty) = 0
   \<and> map op_shape (artists (fig (last_state (main counter_np (\<lambda>_. False) 0 Map.empty)))) =
           [Image] @ replicate 5 Line @ replicate 3 Mesh @ [Arrows] @ replicate 4 Label
           @ replicate 6 Ring @ replicate 30 Line @ replicate 4 Line @ replicate 80 Dot"
proof -
  have e: "exit_code (main counter_np (\<lambda>_. False) 0 Map.empty) = 0"
    by (rule main_clean[OF counter_contract]) simp
  show ?thesis
    using e draw_sequence[OF e] by blast
qed

text \<open>
  C10. For each entry \<open>(cx, cy, radius, alpha_val, lw)\<close> of \<open>circles\<close> the program draws
  exactly two unfilled circles centred at \<open>(cx, cy)\<close> (the circle patches of a complete run
  are these pairs and no others); the inner one has 0.6 times the radius, 0.6 times the
  line width and 0.5 times the opacity of the outer one; and every point of either disc
  lies in the canvas \<open>[0, 10] \<times> [0, 10]\<close>.
\<close>

theorem concentric_circles:
  assumes "exit_code (main np R g fs) = 0"
    and "(cx, cy, rad, alpha_val, lw) \<in> set circles"
  shows "filter (\<lambda>a. op_shape a = Ring) (artists (fig (last_state (main np R g fs)))) =
           concat (map circle_ops circles)
       \<and> circle_ops (cx, cy, rad, alpha_val, lw) =
           [AddPatch (Circle (cx, cy) rad False ''white'' lw alpha_val),
            AddPatch (Circle (cx, cy) (0.6 * rad) False ''white'' (0.6 * lw) (0.5 * alpha_val))]
       \<and> ((x - cx)\<^sup>2 + (y - cy)\<^sup>2 \<le> rad\<^sup>2 \<longrightarrow> in_canvas (x, y))
       \<and> ((x - cx)\<^sup>2 + (y - cy)\<^sup>2 \<le> (0.6 * rad)\<^sup>2 \<longrightarrow> in_canvas (x, y))"
proof -
  have a: "artists (fig (last_state (main np R g fs))) = drawing np"
    by (simp add: main_success(1)[OF assms(1)] artists_final)
  have rings: "filter (\<lambda>a. op_shape a = Ring) (drawing np) = concat (map circle_ops circles)"
    using rings_drawing[of np] by (simp add: circle_layer_def)
  have ops: "circle_ops (cx, cy, rad, alpha_val, lw) =
           [AddPatch (Circle (cx, cy) rad False ''white'' lw alpha_val),
            AddPatch (Circle (cx, cy) (0.6 * rad) False ''white'' (0.6 * lw) (0.5 * alpha_val))]"
    by (simp add: mult.commute)
  have box: "0 \<le> rad \<and> 0 \<le> cx - rad \<and> cx + rad \<le> 10 \<and> 0 \<le> cy - rad \<and> cy + rad \<le> 10"
    using assms(2) by (auto simp: circles_def)
  have outer: "in_canvas (x, y)" if "(x - cx)\<^sup>2 + (y - cy)\<^sup>2 \<le> rad\<^sup>2"
    using disc_in_box[OF that] box by (simp add: in_canvas_def)
  have inner: "in_canvas (x, y)" if "(x - cx)\<^sup>2 + (y - cy)\<^sup>2 \<le> (0.6 * rad)\<^sup>2"
  proof -
    have "0 \<le> 0.6 * rad" "0.6 * rad \<le> rad" using box by simp_all
    with disc_in_box[OF that] box show ?thesis by (simp add: in_canvas_def)
  qed
  show ?thesis unfolding a using rings ops outer inner by blast
qed

theorem concentric_circles_witness:
  "exit_code (main counter_np (\<lambda>_. False) 0 Map.empty) = 0
   \<and> (2.2, 7.2, 0.8, 0.10, 2.5) \<in> set circles
   \<and> filter (\<lambda>a. op_shape a = Ring)
        (artists (fig (last_state (main counter_np (\<lambda>_. False) 0 Map.empty)))) =
        concat (map circle_ops circles)
   \<and> circle_ops (2.2, 7.2, 0.8, 0.10, 2.5) =
        [AddPatch (Circle (2.2, 7.2) 0.8 False ''white'' 2.5 0.10),
         AddPatch (Circle (2.2, 7.2) 0.48 False ''white'' 1.5 0.05)]
   \<and> in_canvas (2.9, 7.2)"
proof -
  have m: "(2.2, 7.2, 0.8, 0.10, 2.5) \<in> set circles" by (simp add: circles_def)
  have d: "((2.9::real) - 2.2)\<^sup>2 + (7.2 - 7.2)\<^sup>2 \<le> (0.8::real)\<^sup>2" by (simp add: power2_eq_square)
  from concentric_circles[OF counter_exit m, of 0 Map.empty "2.9" "7.2"] d
  have "filter (\<lambda>a. op_shape a = Ring)
        (artists (fig (last_state (main counter_np (\<lambda>_. False) 0 Map.empty)))) =
        concat (map circle_ops circles)" and "in_canvas (2.9, 7.2)"
    by blast+
  then show ?thesis using counter_exit m by simp
qed

text \<open>
  C4. With \<open>uniform\<close> keeping its samples between \<open>low\<close> and \<open>high\<close>, every randomly
  placed point of a complete run lies in the canvas \<open>[0, 10] \<times> [0, 10]\<close>: the \<open>n_pts\<close>
  points of each of the three mesh regions lie in the region's rectangle, each rectangle
  lies in the canvas, and the 80 particle positions have both coordinates in \<open>[0, 10]\<close>.
\<close>

theorem random_points_in_canvas:
  assumes "uniform_contract np" and "exit_code (main np R g fs) = 0"
  shows "list_all (\<lambda>a. list_all in_canvas (random_points a))
           (artists (fig (last_state (main np R g fs))))
       \<and> filter (\<lambda>a. op_shape a = Mesh) (artists (fig (last_state (main np R g fs)))) =
           map triplot_op (mesh_points np (np_seed np 42) mesh_regions)
       \<and> list_all2 in_region (mesh_points np (np_seed np 42) mesh_regions) mesh_regions
       \<and> list_all (\<lambda>(bounds, n). 0 \<le> bounds ! 0 \<and> bounds ! 1 \<le> 10 \<and> 0 \<le> bounds ! 2 \<and> bounds ! 3 \<le> 10)
           mesh_regions
       \<and> filter (\<lambda>a. op_shape a = Dot) (artists (fig (last_state (main np R g fs)))) =
           map (particle_op (px (last_state (main np R g fs))) (py (last_state (main np R g fs)))
                  (sizes (last_state (main np R g fs))) (alphas (last_state (main np R g fs))))
             [0..<80]
       \<and> length (px (last_state (main np R g fs))) = 80
       \<and> length (py (last_state (main np R g fs))) = 80
       \<and> list_all (\<lambda>v. 0 \<le> v \<and> v \<le> 10) (px (last_state (main np R g fs)))
       \<and> list_all (\<lambda>v. 0 \<le> v \<and> v \<le> 10) (py (last_state (main np R g fs)))"
proof -
  let ?t = "last_state (main np R g fs)"
  have a: "artists (fig ?t) = drawing np"
    by (simp add: main_success(1)[OF assms(2)] artists_final)
  obtain xs ys ss as where pa: "particle_arrays np (np_seed np 123) = (xs, ys, ss, as)"
    by (metis prod_cases4)
  from main_success(6)[OF assms(2)] pa have st: "px ?t = xs" "py ?t = ys" "sizes ?t = ss" "alphas ?t = as"
    by simp_all
  from contract_particles[OF assms(1), of "np_seed np 123"] pa
  have l: "length xs = 80" "length ys = 80"
    and x: "list_all (\<lambda>v. 0 \<le> v \<and> v \<le> 10) xs" and y: "list_all (\<lambda>v. 0 \<le> v \<and> v \<le> 10) ys"
    by (simp_all add: n_particles_def)
  have no: "filter (\<lambda>a. op_shape a = c') zs = []" if "\<forall>a\<in>set zs. op_shape a = c" "c \<noteq> c'" for zs c c'
    using that by (auto simp: filter_empty_conv)
  have yes: "filter (\<lambda>a. op_shape a = c) zs = zs" if "\<forall>a\<in>set zs. op_shape a = c" for zs c
    using that by (auto simp: filter_id_conv)
  have meshes: "filter (\<lambda>a. op_shape a = Mesh) (drawing np) = mesh_layer np"
    unfolding drawing_def filter_append yes[OF layer_shapes(2)]
    by (simp add: no[OF layer_shapes(1)] no[OF layer_shapes(3)] no[OF layer_shapes(4)]
        no[OF layer_shapes(5)] no[OF layer_shapes(6)] no[OF layer_shapes(7)] imshow_op_def quiver_op_def)
  have dots: "filter (\<lambda>a. op_shape a = Dot) (drawing np) = particle_layer np"
    unfolding drawing_def filter_append yes[OF layer_shapes(7)]
    by (simp add: no[OF layer_shapes(1)] no[OF layer_shapes(2)] no[OF layer_shapes(3)] no[OF layer_shapes(4)]
        no[OF layer_shapes(5)] no[OF layer_shapes(6)] imshow_op_def quiver_op_def)
  have pl: "particle_layer np = map (particle_op xs ys ss as) [0..<80]"
    by (simp add: particle_layer_def pa n_particles_def)
  show ?thesis
    unfolding a st meshes dots
    using points_drawing[OF assms(1)] mesh_points_in_region[OF assms(1) mesh_regions_ok(1), of "np_seed np 42"]
      mesh_regions_ok(2) pl l x y
    by (simp add: mesh_layer_def)
qed

theorem random_points_in_canvas_witness:
  "uniform_contract counter_np \<and> exit_code (main counter_np (\<lambda>_. False) 0 Map.empty) = 0
   \<and> list_all (\<lambda>a. list_all in_canvas (random_points a))
           (artists (fig (last_state (main counter_np (\<lambda>_. False) 0 Map.empty))))
   \<and> length (px (last_state (main counter_np (\<lambda>_. False) 0 Map.empty))) = 80
   \<and> list_all (\<lambda>v. 0 \<le> v \<and> v \<le> 10) (px (last_state (main counter_np (\<lambda>_. False) 0 Map.empty)))"
  using counter_contract counter_exit[of 0 Map.empty]
    random_points_in_canvas[OF counter_contract counter_exit, of 0 Map.empty]
  by blast

text \<open>
  C5. With \<open>uniform\<close> keeping its samples between \<open>low\<close> and \<open>high\<close>, every \<open>alpha\<close>
  argument of every drawing call of a complete run lies in \<open>[0, 1]\<close>: the literal
  opacities, the particle opacities drawn from \<open>uniform(0.05, 0.15)\<close>, and the inner-circle
  opacity \<open>alpha_val * 0.5\<close>.
\<close>

theorem opacities_in_unit_interval:
  assumes "uniform_contract np" and "exit_code (main np R g fs) = 0"
  shows "list_all (\<lambda>a. 0 \<le> op_alpha a \<and> op_alpha a \<le> 1)
           (artists (fig (last_state (main np R g fs))))
       \<and> list_all (\<lambda>v. 0.05 \<le> v \<and> v \<le> 0.15) (alphas (last_state (main np R g fs)))
       \<and> list_all (\<lambda>(cx, cy, rad, alpha_val, lw). 0 \<le> alpha_val * 0.5 \<and> alpha_val * 0.5 \<le> 1) circles"
proof -
  let ?t = "last_state (main np R g fs)"
  have a: "artists (fig ?t) = drawing np"
    by (simp add: main_success(1)[OF assms(2)] artists_final)
  obtain xs ys ss as where pa: "particle_arrays np (np_seed np 123) = (xs, ys, ss, as)"
    by (metis prod_cases4)
  from main_success(6)[OF assms(2)] pa have st: "alphas ?t = as" by simp
  from contract_particles[OF assms(1), of "np_seed np 123"] pa
  have r: "list_all (\<lambda>v. 0.05 \<le> v \<and> v \<le> 0.15) as" by simp
  have c: "list_all (\<lambda>(cx, cy, rad, alpha_val, lw). 0 \<le> alpha_val * 0.5 \<and> alpha_val * 0.5 \<le> 1) circles"
    by (simp add: circles_def)
  show ?thesis unfolding a st using alphas_drawing[OF assms(1)] r c by blast
qed

theorem opacities_in_unit_interval_witness:
  "uniform_contract counter_np \<and> exit_code (main counter_np (\<lambda>_. False) 0 Map.empty) = 0
   \<and> list_all (\<lambda>a. 0 \<le> op_alpha a \<and> op_alpha a \<le> 1)
           (artists (fig (last_state (main counter_np (\<lambda>_. False) 0 Map.empty))))
   \<and> list_all (\<lambda>v. 0.05 \<le> v \<and> v \<le> 0.15) (alphas (last_state (main counter_np (\<lambda>_. False) 0 Map.empty)))"
  using counter_contract counter_exit[of 0 Map.empty]
    opacities_in_unit_interval[OF counter_contract counter_exit, of 0 Map.empty]
  by blast

text \<open>
  C7. The PNG file is saved with \<open>transparent=True\<close> and \<open>facecolor='none'\<close> in a format
  with an alpha channel; the JPEG file is saved with the opaque fill colour
  \<open>facecolor='#1937b4'\<close>, without \<open>transparent\<close>, in a format without an alpha channel.
\<close>

theorem output_formats:
  assumes "exit_code (main np R g fs) = 0"
  shows "files (last_state (main np R g fs)) ''hero-background.png'' =
           Some \<lparr>img_format = PNG, img_args = png_args, img_figure = final_figure np\<rparr>
       \<and> sf_transparent png_args \<and> sf_facecolor png_args = ''none'' \<and> alpha_channel PNG
       \<and> files (last_state (main np R g fs)) ''hero-background.jpg'' =
           Some \<lparr>img_format = JPEG, img_args = jpg_args, img_figure = final_figure np\<rparr>
       \<and> sf_facecolor jpg_args = ''#1937b4'' \<and> \<not> sf_transparent jpg_args \<and> \<not> alpha_channel JPEG"
  by (simp add: main_success(2)[OF assms] png_args_def jpg_args_def)

theorem output_formats_witness:
  "exit_code (main counter_np (\<lambda>_. False) 0 Map.empty) = 0
   \<and> map_option img_format (files (last_state (main counter_np (\<lambda>_. False) 0 Map.empty)) ''hero-background.png'')
       = Some PNG
   \<and> map_option (sf_transparent \<circ> img_args)
       (files (last_state (main counter_np (\<lambda>_. False) 0 Map.empty)) ''hero-background.png'') = Some True
   \<and> map_option img_format (files (last_state (main counter_np (\<lambda>_. False) 0 Map.empty)) ''hero-background.jpg'')
       = Some JPEG
   \<and> map_option (sf_facecolor \<circ> img_args)
       (files (last_state (main counter_np (\<lambda>_. False) 0 Map.empty)) ''hero-background.jpg'') = Some ''#1937b4''"
  using counter_exit[of 0 Map.empty] output_formats[OF counter_exit, of 0 Map.empty]
  by (simp add: png_args_def jpg_args_def)

text \<open>
  C1. Any two complete runs of the script draw the same content, whatever state numpy's
  generator was in when each run started and whatever the working directory held: the
  figure with all its layers, the mesh points, the particle positions, sizes and
  opacities, and both saved images are equal across the runs. The generator is reseeded
  with a constant before each group of random draws.
\<close>

theorem determinism:
  assumes "exit_code (main np R1 g1 fs1) = 0" and "exit_code (main np R2 g2 fs2) = 0"
  shows "fig (last_state (main np R1 g1 fs1)) = fig (last_state (main np R2 g2 fs2))
       \<and> filter (\<lambda>a. op_shape a = Mesh) (artists (fig (last_state (main np R1 g1 fs1)))) =
         filter (\<lambda>a. op_shape a = Mesh) (artists (fig (last_state (main np R2 g2 fs2))))
       \<and> px (last_state (main np R1 g1 fs1)) = px (last_state (main np R2 g2 fs2))
       \<and> py (last_state (main np R1 g1 fs1)) = py (last_state (main np R2 g2 fs2))
       \<and> sizes (last_state (main np R1 g1 fs1)) = sizes (last_state (main np R2 g2 fs2))
       \<and> alphas (last_state (main np R1 g1 fs1)) = alphas (last_state (main np R2 g2 fs2))
       \<and> files (last_state (main np R1 g1 fs1)) ''hero-background.png'' =
         files (last_state (main np R2 g2 fs2)) ''hero-background.png''
       \<and> files (last_state (main np R1 g1 fs1)) ''hero-background.jpg'' =
         files (last_state (main np R2 g2 fs2)) ''hero-background.jpg''
       \<and> stdout (last_state (main np R1 g1 fs1)) = stdout (last_state (main np R2 g2 fs2))"
proof -
  have f: "fig (last_state (main np R1 g1 fs1)) = fig (last_state (main np R2 g2 fs2))"
    by (simp add: main_success(1)[OF assms(1)] main_success(1)[OF assms(2)])
  have p: "(px (last_state (main np R1 g1 fs1)), py (last_state (main np R1 g1 fs1)),
            sizes (last_state (main np R1 g1 fs1)), alphas (last_state (main np R1 g1 fs1))) =
           (px (last_state (main np R2 g2 fs2)), py (last_state (main np R2 g2 fs2)),
            sizes (last_state (main np R2 g2 fs2)), alphas (last_state (main np R2 g2 fs2)))"
    by (simp only: main_success(6)[OF assms(1)] main_success(6)[OF assms(2)])
  have w: "files (last_state (main np R1 g1 fs1)) ''hero-background.png'' =
         files (last_state (main np R2 g2 fs2)) ''hero-background.png''"
      "files (last_state (main np R1 g1 fs1)) ''hero-background.jpg'' =
         files (last_state (main np R2 g2 fs2)) ''hero-background.jpg''"
    by (simp_all add: main_success(2)[OF assms(1)] main_success(2)[OF assms(2)])
  have s: "stdout (last_state (main np R1 g1 fs1)) = stdout (last_state (main np R2 g2 fs2))"
    by (simp only: main_success(4)[OF assms(1)] main_success(4)[OF assms(2)])
  from f p w s show ?thesis by simp
qed

theorem determinism_witness:
  "exit_code (main counter_np (\<lambda>_. False) 0 Map.empty) = 0
   \<and> exit_code (main counter_np (\<lambda>_. False) 77 Map.empty) = 0
   \<and> fig (last_state (main counter_np (\<lambda>_. False) 0 Map.empty)) =
     fig (last_state (main counter_np (\<lambda>_. False) 77 Map.empty))
   \<and> px (last_state (main counter_np (\<lambda>_. False) 0 Map.empty)) =
     px (last_state (main counter_np (\<lambda>_. False) 77 Map.empty))
   \<and> alphas (last_state (main counter_np (\<lambda>_. False) 0 Map.empty)) =
     alphas (last_state (main counter_np (\<lambda>_. False) 77 Map.empty))"
  using counter_exit[of 0 Map.empty] counter_exit[of 77 Map.empty]
    determinism[OF counter_exit counter_exit, of 0 Map.empty 77 Map.empty]
  by blast

text \<open>
  C8 (amended). The arrows are drawn on a \<open>12 \<times> 12\<close> grid whose coordinates are evenly
  spaced over \<open>[0.8, 9.2]\<close>. At grid point \<open>(i, j)\<close>, with \<open>dx\<close>, \<open>dy\<close> the displacement
  from the centre \<open>(5, 5)\<close> and \<open>r = sqrt (dx\<^sup>2 + dy\<^sup>2) + 0.1\<close>, the field is
  \<open>U = - dy / r * exp (- r / 4) - 0.15 * dx\<close>, \<open>V = dx / r * exp (- r / 4) - 0.15 * dy\<close>: the sum
  of a rotational term perpendicular to the displacement, namely \<open>(- dy, dx)\<close> scaled by
  \<open>exp (- r / 4) / r\<close>, whose magnitude is therefore
  \<open>exp (- r / 4) / r * sqrt (dx\<^sup>2 + dy\<^sup>2)\<close>, and of the sink term \<open>- 0.15\<close> times the
  displacement.
\<close>

theorem flow_field:
  assumes "i < 12" and "j < 12"
  shows "quiver_op = Quiver X_grid Y_grid U_arr V_arr ''white'' 0.15 0.004 12 3.5 4.5
       \<and> is_shape 12 12 X_grid \<and> is_shape 12 12 Y_grid \<and> is_shape 12 12 U_arr \<and> is_shape 12 12 V_arr
       \<and> X_grid ! i ! j = 0.8 + real j * ((9.2 - 0.8) / 11)
       \<and> Y_grid ! i ! j = 0.8 + real i * ((9.2 - 0.8) / 11)
       \<and> X_grid ! i ! 0 = 0.8 \<and> X_grid ! i ! 11 = 9.2
       \<and> Y_grid ! 0 ! j = 0.8 \<and> Y_grid ! 11 ! j = 9.2
       \<and> (let dx = X_grid ! i ! j - 5; dy = Y_grid ! i ! j - 5; r = sqrt (dx\<^sup>2 + dy\<^sup>2) + 0.1 in
            U_arr ! i ! j = - dy / r * exp (- r / 4) - 0.15 * dx
          \<and> V_arr ! i ! j = dx / r * exp (- r / 4) - 0.15 * dy
          \<and> U_spiral ! i ! j = exp (- r / 4) / r * (- dy)
          \<and> V_spiral ! i ! j = exp (- r / 4) / r * dx
          \<and> U_spiral ! i ! j * dx + V_spiral ! i ! j * dy = 0
          \<and> sqrt ((U_spiral ! i ! j)\<^sup>2 + (V_spiral ! i ! j)\<^sup>2) =
              exp (- r / 4) / r * sqrt (dx\<^sup>2 + dy\<^sup>2)
          \<and> U_arr ! i ! j = U_spiral ! i ! j + (- 0.15) * dx
          \<and> V_arr ! i ! j = V_spiral ! i ! j + (- 0.15) * dy)"
proof -
  have ends: "X_grid ! i ! 0 = 0.8" "X_grid ! i ! 11 = 9.2" "Y_grid ! 0 ! j = 0.8" "Y_grid ! 11 ! j = 9.2"
    using nth_grids(1)[OF assms(1), of 0] nth_grids(1)[OF assms(1), of 11]
      nth_grids(2)[OF _ assms(2), of 0] nth_grids(2)[OF _ assms(2), of 11]
    by simp_all
  define dx where "dx = X_grid ! i ! j - 5"
  define dy where "dy = Y_grid ! i ! j - 5"
  define r where "r = sqrt (dx\<^sup>2 + dy\<^sup>2) + 0.1"
  note f = nth_flow[OF assms, folded dx_def dy_def, folded r_def]
  have u: "U_arr ! i ! j = - dy / r * exp (- r / 4) - 0.15 * dx"
    and v: "V_arr ! i ! j = dx / r * exp (- r / 4) - 0.15 * dy"
    using f(6,7) by simp_all
  have us: "U_spiral ! i ! j = exp (- r / 4) / r * (- dy)"
    and vs: "V_spiral ! i ! j = exp (- r / 4) / r * dx"
    using f(4,5) by simp_all
  have perp: "U_spiral ! i ! j * dx + V_spiral ! i ! j * dy = 0"
    unfolding us vs by (simp add: algebra_simps)
  have sum: "U_arr ! i ! j = U_spiral ! i ! j + (- 0.15) * dx" "V_arr ! i ! j = V_spiral ! i ! j + (- 0.15) * dy"
    using f(4,5,6,7) by simp_all
  note norm = spiral_norm[OF assms, folded dx_def dy_def, folded r_def]
  have q: "quiver_op = Quiver X_grid Y_grid U_arr V_arr ''white'' 0.15 0.004 12 3.5 4.5"
    by (simp add: quiver_op_def)
  show ?thesis
    unfolding Let_def
    by (fold dx_def dy_def, fold r_def)
       (intro conjI q ends shape_grids shape_flow nth_grids[OF assms] u v us vs perp norm sum)
qed

theorem flow_field_witness:
  "(0::nat) < 12 \<and> (11::nat) < 12
   \<and> X_grid ! 0 ! 11 = 9.2 \<and> Y_grid ! 0 ! 11 = 0.8
   \<and> U_arr ! 0 ! 11 =
       - (0.8 - 5) / (sqrt ((9.2 - 5)\<^sup>2 + (0.8 - 5)\<^sup>2) + 0.1)
         * exp (- (sqrt ((9.2 - 5)\<^sup>2 + (0.8 - 5)\<^sup>2) + 0.1) / 4) - 0.15 * (9.2 - 5)
   \<and> V_arr ! 0 ! 11 =
       (9.2 - 5) / (sqrt ((9.2 - 5)\<^sup>2 + (0.8 - 5)\<^sup>2) + 0.1)
         * exp (- (sqrt ((9.2 - 5)\<^sup>2 + (0.8 - 5)\<^sup>2) + 0.1) / 4) - 0.15 * (0.8 - 5)
   \<and> sqrt ((U_spiral ! 0 ! 11)\<^sup>2 + (V_spiral ! 0 ! 11)\<^sup>2) =
       exp (- (sqrt ((9.2 - 5)\<^sup>2 + (0.8 - 5)\<^sup>2) + 0.1) / 4)
         / (sqrt ((9.2 - 5)\<^sup>2 + (0.8 - 5)\<^sup>2) + 0.1) * sqrt ((9.2 - 5)\<^sup>2 + (0.8 - 5)\<^sup>2)"
proof -
  have h: "(0::nat) < 12" "(11::nat) < 12" by simp_all
  have x: "X_grid ! 0 ! 11 = 9.2" and y: "Y_grid ! 0 ! 11 = 0.8"
    using flow_field[OF h] by simp_all
  from flow_field[OF h] have
    "U_arr ! 0 ! 11 = - (Y_grid ! 0 ! 11 - 5) / (sqrt ((X_grid ! 0 ! 11 - 5)\<^sup>2 + (Y_grid ! 0 ! 11 - 5)\<^sup>2) + 0.1)
         * exp (- (sqrt ((X_grid ! 0 ! 11 - 5)\<^sup>2 + (Y_grid ! 0 ! 11 - 5)\<^sup>2) + 0.1) / 4) - 0.15 * (X_grid ! 0 ! 11 - 5)"
    "V_arr ! 0 ! 11 = (X_grid ! 0 ! 11 - 5) / (sqrt ((X_grid ! 0 ! 11 - 5)\<^sup>2 + (Y_grid ! 0 ! 11 - 5)\<^sup>2) + 0.1)
         * exp (- (sqrt ((X_grid ! 0 ! 11 - 5)\<^sup>2 + (Y_grid ! 0 ! 11 - 5)\<^sup>2) + 0.1) / 4) - 0.15 * (Y_grid ! 0 ! 11 - 5)"
    "sqrt ((U_spiral ! 0 ! 11)\<^sup>2 + (V_spiral ! 0 ! 11)\<^sup>2) =
       exp (- (sqrt ((X_grid ! 0 ! 11 - 5)\<^sup>2 + (Y_grid ! 0 ! 11 - 5)\<^sup>2) + 0.1) / 4)
         / (sqrt ((X_grid ! 0 ! 11 - 5)\<^sup>2 + (Y_grid ! 0 ! 11 - 5)\<^sup>2) + 0.1)
         * sqrt ((X_grid ! 0 ! 11 - 5)\<^sup>2 + (Y_grid ! 0 ! 11 - 5)\<^sup>2)"
    unfolding Let_def by blast+
  then show ?thesis unfolding x y using h x y by blast
qed

text \<open>
  C8, counterexample. The magnitude of the rotational term is not \<open>exp (- r / 4) / r\<close>: at
  the grid point in row 0, column 11 the displacement is \<open>(4.2, - 4.2)\<close>, of length
  \<open>sqrt 35.28\<close>, and the magnitude of the term is that length times \<open>exp (- r / 4) / r\<close>.
\<close>

theorem flow_field_magnitude_counterexample:
  "sqrt ((U_spiral ! 0 ! 11)\<^sup>2 + (V_spiral ! 0 ! 11)\<^sup>2)
     \<noteq> exp (- (r_arr ! 0 ! 11) / 4) / (r_arr ! 0 ! 11)"
proof
  assume eq: "sqrt ((U_spiral ! 0 ! 11)\<^sup>2 + (V_spiral ! 0 ! 11)\<^sup>2)
     = exp (- (r_arr ! 0 ! 11) / 4) / (r_arr ! 0 ! 11)"
  have h: "(0::nat) < 12" "(11::nat) < 12" by simp_all
  define dx where "dx = X_grid ! 0 ! 11 - 5"
  define dy where "dy = Y_grid ! 0 ! 11 - 5"
  define r where "r = sqrt (dx\<^sup>2 + dy\<^sup>2) + 0.1"
  define c where "c = exp (- r / 4) / r"
  have rr: "r_arr ! 0 ! 11 = r"
    using nth_flow(3)[OF h] by (simp add: r_def dx_def dy_def)
  have "0 \<le> sqrt (dx\<^sup>2 + dy\<^sup>2)" by simp
  then have "0 < r" unfolding r_def by linarith
  then have c: "0 < c" by (simp add: c_def)
  have xy: "dx = 4.2" "dy = - 4.2"
    using nth_grids[OF h] by (simp_all add: dx_def dy_def)
  have "sqrt ((U_spiral ! 0 ! 11)\<^sup>2 + (V_spiral ! 0 ! 11)\<^sup>2) = c * sqrt (dx\<^sup>2 + dy\<^sup>2)"
    using spiral_norm[OF h] by (simp add: c_def r_def dx_def dy_def)
  with eq rr have "c * sqrt (dx\<^sup>2 + dy\<^sup>2) = c" by (simp add: c_def)
  with c have "sqrt (dx\<^sup>2 + dy\<^sup>2) = 1" by simp
  then have "dx\<^sup>2 + dy\<^sup>2 = 1" by simp
  then show False unfolding xy by (simp add: power2_eq_square)
qed

text \<open>
  C6. The script handles no error. If no statement raises, the run ends with exit status
  0 and has written exactly the two output files, replacing whatever the working
  directory held under those names. If statement \<open>k\<close> is the first to raise, the run stops
  there: the outcome is that exception, the state is the one the first \<open>k\<close> statements
  built (each executed once, nothing after them, nothing retried), and the exit status is
  not 0. Every aborted run has this form, whatever the exception, and the exit status is
  0 exactly when no statement raises.
\<close>

theorem no_error_handling:
  assumes "uniform_contract np"
  shows "((\<forall>k<length (script np). \<not> R k) \<longrightarrow>
            exit_code (main np R g fs) = 0
          \<and> written (last_state (main np R g fs)) = [''hero-background.png'', ''hero-background.jpg'']
          \<and> files (last_state (main np R g fs)) =
              fs(''hero-background.png'' \<mapsto>
                   \<lparr>img_format = PNG, img_args = png_args, img_figure = final_figure np\<rparr>,
                 ''hero-background.jpg'' \<mapsto>
                   \<lparr>img_format = JPEG, img_args = jpg_args, img_figure = final_figure np\<rparr>))
       \<and> (\<forall>k<length (script np). R k \<and> (\<forall>j<k. \<not> R j) \<longrightarrow>
            (\<exists>u. run (\<lambda>_. False) 0 (take k (script np)) (init g fs) = Finished u
                \<and> main np R g fs = Aborted k LibraryError u)
            \<and> exit_code (main np R g fs) \<noteq> 0)
       \<and> (\<forall>k e u. main np R g fs = Aborted k e u \<longrightarrow>
            k < length (script np) \<and> (\<forall>j<k. \<not> R j)
            \<and> run (\<lambda>_. False) 0 (take k (script np)) (init g fs) = Finished u
            \<and> exit_code (main np R g fs) \<noteq> 0)
       \<and> (exit_code (main np R g fs) = 0 \<longleftrightarrow> (\<forall>k<length (script np). \<not> R k))"
proof -
  from run_script_ok[OF contract_lengths[OF assms], of g fs]
  obtain t where t: "run (\<lambda>_. False) 0 (script np) (init g fs) = Finished t" by blast
  have ok: "exit_code (main np R g fs) = 0
          \<and> written (last_state (main np R g fs)) = [''hero-background.png'', ''hero-background.jpg'']
          \<and> files (last_state (main np R g fs)) =
              fs(''hero-background.png'' \<mapsto>
                   \<lparr>img_format = PNG, img_args = png_args, img_figure = final_figure np\<rparr>,
                 ''hero-background.jpg'' \<mapsto>
                   \<lparr>img_format = JPEG, img_args = jpg_args, img_figure = final_figure np\<rparr>)"
    if "\<forall>k<length (script np). \<not> R k"
  proof -
    have e: "exit_code (main np R g fs) = 0" using assms that by (rule main_clean)
    show ?thesis using e main_success(2,3)[OF e] by simp
  qed
  have bad: "(\<exists>u. run (\<lambda>_. False) 0 (take k (script np)) (init g fs) = Finished u
                \<and> main np R g fs = Aborted k LibraryError u)
            \<and> exit_code (main np R g fs) \<noteq> 0"
    if "k < length (script np)" "R k" "\<forall>j<k. \<not> R j" for k
  proof -
    from run_first_raise[OF t that(1), of R 0] that(2,3)
    obtain u where u: "run (\<lambda>_. False) 0 (take k (script np)) (init g fs) = Finished u"
      "run R 0 (script np) (init g fs) = Aborted k LibraryError u"
      by auto
    then show ?thesis by (auto simp: main_def)
  qed
  have ab: "k < length (script np) \<and> (\<forall>j<k. \<not> R j)
            \<and> run (\<lambda>_. False) 0 (take k (script np)) (init g fs) = Finished u
            \<and> exit_code (main np R g fs) \<noteq> 0"
    if "main np R g fs = Aborted k e u" for k e u
  proof -
    from that have r: "run R 0 (script np) (init g fs) = Aborted k e u" by (simp add: main_def)
    from run_aborted[OF r, of 0] obtain i where
      i: "i < length (script np)" "k = 0 + i"
        "run (\<lambda>_. False) 0 (take i (script np)) (init g fs) = Finished u" "\<forall>l<i. \<not> R (0 + l)"
      by blast
    from i(2) have ki: "i = k" by simp
    have "exit_code (main np R g fs) \<noteq> 0" using that by simp
    with i(1,3,4) show ?thesis unfolding ki by simp
  qed
  have iff: "exit_code (main np R g fs) = 0 \<longleftrightarrow> (\<forall>k<length (script np). \<not> R k)"
  proof
    assume e: "exit_code (main np R g fs) = 0"
    show "\<forall>k<length (script np). \<not> R k"
    proof (rule ccontr)
      assume "\<not> (\<forall>k<length (script np). \<not> R k)"
      then have ex: "\<exists>k. k < length (script np) \<and> R k" by blast
      define k where "k = (LEAST k. k < length (script np) \<and> R k)"
      from LeastI_ex[OF ex] have k: "k < length (script np)" "R k" by (simp_all add: k_def)
      have "\<not> R j" if "j < k" for j
        using not_less_Least[of j "\<lambda>k. k < length (script np) \<and> R k"] that k(1)
        by (auto simp: k_def)
      with bad[OF k] e show False by blast
    qed
  next
    assume "\<forall>k<length (script np). \<not> R k"
    with ok show "exit_code (main np R g fs) = 0" by blast
  qed
  have c1: "(\<forall>k<length (script np). \<not> R k) \<longrightarrow>
            exit_code (main np R g fs) = 0
          \<and> written (last_state (main np R g fs)) = [''hero-background.png'', ''hero-background.jpg'']
          \<and> files (last_state (main np R g fs)) =
              fs(''hero-background.png'' \<mapsto>
                   \<lparr>img_format = PNG, img_args = png_args, img_figure = final_figure np\<rparr>,
                 ''hero-background.jpg'' \<mapsto>
                   \<lparr>img_format = JPEG, img_args = jpg_args, img_figure = final_figure np\<rparr>)"
    using ok by blast
  have c2: "\<forall>k<length (script np). R k \<and> (\<forall>j<k. \<not> R j) \<longrightarrow>
            (\<exists>u. run (\<lambda>_. False) 0 (take k (script np)) (init g fs) = Finished u
                \<and> main np R g fs = Aborted k LibraryError u)
            \<and> exit_code (main np R g fs) \<noteq> 0"
    using bad by blast
  have c3: "\<forall>k e u. main np R g fs = Aborted k e u \<longrightarrow>
            k < length (script np) \<and> (\<forall>j<k. \<not> R j)
            \<and> run (\<lambda>_. False) 0 (take k (script np)) (init g fs) = Finished u
            \<and> exit_code (main np R g fs) \<noteq> 0"
    using ab by blast
  show ?thesis by (rule conjI[OF c1 conjI[OF c2 conjI[OF c3 iff]]])
qed

theorem no_error_handling_witness:
  "uniform_contract counter_np
   \<and> exit_code (main counter_np (\<lambda>_. False) 0
        (Map.empty(''hero-background.png'' \<mapsto>
           \<lparr>img_format = JPEG, img_args = jpg_args, img_figure = new_figure (0, 0) 0\<rparr>))) = 0
   \<and> written (last_state (main counter_np (\<lambda>_. False) 0
        (Map.empty(''hero-background.png'' \<mapsto>
           \<lparr>img_format = JPEG, img_args = jpg_args, img_figure = new_figure (0, 0) 0\<rparr>)))) =
        [''hero-background.png'', ''hero-background.jpg'']
   \<and> files (last_state (main counter_np (\<lambda>_. False) 0
        (Map.empty(''hero-background.png'' \<mapsto>
           \<lparr>img_format = JPEG, img_args = jpg_args, img_figure = new_figure (0, 0) 0\<rparr>))))
        ''hero-background.png'' =
        Some \<lparr>img_format = PNG, img_args = png_args, img_figure = final_figure counter_np\<rparr>
   \<and> main counter_np (\<lambda>k. k = 2) 0 Map.empty =
        Aborted 2 LibraryError ((init 0 Map.empty)\<lparr>fig := new_figure (19.2, 10.8) 200\<rparr>)
   \<and> exit_code (main counter_np (\<lambda>k. k = 2) 0 Map.empty) = 1"
proof -
  let ?old = "Map.empty(''hero-background.png'' \<mapsto>
           \<lparr>img_format = JPEG, img_args = jpg_args, img_figure = new_figure (0, 0) 0\<rparr>)"
  note a = no_error_handling[OF counter_contract, of "\<lambda>_. False" 0 ?old, THEN conjunct1, rule_format]
  have "exit_code (main counter_np (\<lambda>_. False) 0 ?old) = 0
      \<and> written (last_state (main counter_np (\<lambda>_. False) 0 ?old)) =
        [''hero-background.png'', ''hero-background.jpg'']
      \<and> files (last_state (main counter_np (\<lambda>_. False) 0 ?old)) =
              ?old(''hero-background.png'' \<mapsto>
                   \<lparr>img_format = PNG, img_args = png_args, img_figure = final_figure counter_np\<rparr>,
                 ''hero-background.jpg'' \<mapsto>
                   \<lparr>img_format = JPEG, img_args = jpg_args, img_figure = final_figure counter_np\<rparr>)"
    by (rule a) simp
  then have a1: "exit_code (main counter_np (\<lambda>_. False) 0 ?old) = 0"
    and a2: "written (last_state (main counter_np (\<lambda>_. False) 0 ?old)) =
        [''hero-background.png'', ''hero-background.jpg'']"
    and a3: "files (last_state (main counter_np (\<lambda>_. False) 0 ?old)) =
              ?old(''hero-background.png'' \<mapsto>
                   \<lparr>img_format = PNG, img_args = png_args, img_figure = final_figure counter_np\<rparr>,
                 ''hero-background.jpg'' \<mapsto>
                   \<lparr>img_format = JPEG, img_args = jpg_args, img_figure = final_figure counter_np\<rparr>)"
    by blast+
  have a4: "files (last_state (main counter_np (\<lambda>_. False) 0 ?old)) ''hero-background.png'' =
        Some \<lparr>img_format = PNG, img_args = png_args, img_figure = final_figure counter_np\<rparr>"
    unfolding a3 by simp
  note b = no_error_handling[OF counter_contract, of "\<lambda>k. k = 2" 0 Map.empty,
      THEN conjunct2, THEN conjunct1, rule_format, of 2]
  have "(\<exists>u. run (\<lambda>_. False) 0 (take 2 (script counter_np)) (init 0 Map.empty) = Finished u
          \<and> main counter_np (\<lambda>k. k = 2) 0 Map.empty = Aborted 2 LibraryError u)
      \<and> exit_code (main counter_np (\<lambda>k. k = 2) 0 Map.empty) \<noteq> 0"
    by (rule b) (simp_all add: length_script)
  then obtain u where
    u: "run (\<lambda>_. False) 0 (take 2 (script counter_np)) (init 0 Map.empty) = Finished u"
      "main counter_np (\<lambda>k. k = 2) 0 Map.empty = Aborted 2 LibraryError u"
    by blast
  have "take 2 (script counter_np) = [figure_stmt (19.2, 10.8) 200, gca_stmt]"
    by (simp add: script_def numeral_2_eq_2)
  with u(1) have "u = (init 0 Map.empty)\<lparr>fig := new_figure (19.2, 10.8) 200\<rparr>"
    by (simp add: figure_stmt_def gca_stmt_def)
  with u(2) have b1: "main counter_np (\<lambda>k. k = 2) 0 Map.empty =
        Aborted 2 LibraryError ((init 0 Map.empty)\<lparr>fig := new_figure (19.2, 10.8) 200\<rparr>)"
    by simp
  then have b2: "exit_code (main counter_np (\<lambda>k. k = 2) 0 Map.empty) = 1" by simp
  from counter_contract a1 a2 a4 b1 b2 show ?thesis by blast
qed

end
